theory Spec2Isabelle
  imports Complex_Main "HOL-Library.Word" "HOL-Library.Monad_Syntax"
begin

section \<open>Reputation system (blockchain\_service.py, class ReputationSystem)\<close>

text \<open>
  The timestamps produced by \<^verbatim>\<open>datetime.utcnow()\<close> are inputs of the model: every function
  that reads the clock takes the value read as a parameter.
\<close>

type_synonym timestamp = nat

record reputation =
  score :: int
  meeting_count :: int
  positive_feedback :: int
  negative_feedback :: int
  credentials_verified :: int
  last_updated :: timestamp

record breakdown =
  base_score :: int
  meeting_bonus :: int
  feedback_score :: int
  credential_bonus :: int

record reputation_report =
  rr_identity_id :: string
  reputation_score :: int
  rr_breakdown :: breakdown
  statistics :: reputation
  rr_last_updated :: timestamp

text \<open>\<^verbatim>\<open>self.reputation_scores\<close>: a dictionary from identity ids to reputation records.\<close>

type_synonym reputation_scores = "string \<rightharpoonup> reputation"

definition starting_reputation :: "timestamp \<Rightarrow> reputation" where
  "starting_reputation now =
     \<lparr> score = 50, meeting_count = 0, positive_feedback = 0, negative_feedback = 0,
       credentials_verified = 0, last_updated = now \<rparr>"

text \<open>
  \<^verbatim>\<open>calculate_reputation\<close> installs the starting record when the identity is unknown, then
  computes the weighted score from the stored record. The updated store is returned with
  the report.
\<close>

definition calculate_reputation ::
  "timestamp \<Rightarrow> reputation_scores \<Rightarrow> string \<Rightarrow> reputation_report \<times> reputation_scores" where
  "calculate_reputation now scores identity_id =
     (let scores' = (if identity_id \<notin> dom scores
                     then scores(identity_id \<mapsto> starting_reputation now) else scores);
          reputation = the (scores' identity_id);
          base = 50;
          meeting = min (meeting_count reputation * 2) 30;
          feedback = (positive_feedback reputation - negative_feedback reputation) * 5;
          credential = min (credentials_verified reputation * 10) 20;
          final_score = max 0 (min 100 (base + meeting + feedback + credential))
      in (\<lparr> rr_identity_id = identity_id,
            reputation_score = final_score,
            rr_breakdown = \<lparr> base_score = base, meeting_bonus = meeting,
                             feedback_score = feedback, credential_bonus = credential \<rparr>,
            statistics = reputation,
            rr_last_updated = last_updated reputation \<rparr>, scores'))"

text \<open>
  C1. For an identity with a record in the store, the reported score is
  max(0, min(100, 50 + min(2 * meeting\_count, 30) + 5 * (positive - negative) +
  min(10 * credentials\_verified, 20))) and the store is unchanged; for an identity without
  a record the starting record (score 50, all counters 0) is installed and the reported
  score is 50.
\<close>

theorem calculate_reputation_formula:
  "reputation_score (fst (calculate_reputation now scores i)) =
     (case scores i of
        None \<Rightarrow> 50
      | Some r \<Rightarrow> max 0 (min 100 (50 + min (2 * meeting_count r) 30
                    + 5 * (positive_feedback r - negative_feedback r)
                    + min (10 * credentials_verified r) 20)))
   \<and> snd (calculate_reputation now scores i) =
     (case scores i of
        None \<Rightarrow> scores(i \<mapsto> \<lparr> score = 50, meeting_count = 0, positive_feedback = 0,
                            negative_feedback = 0, credentials_verified = 0,
                            last_updated = now \<rparr>)
      | Some r \<Rightarrow> scores)"
  by (cases "scores i")
     (simp_all add: calculate_reputation_def starting_reputation_def Let_def domIff mult.commute)

section \<open>Text chunking (ai\_service.py, AIService.\_chunk\_text)\<close>

text \<open>
  A Python \<^verbatim>\<open>str\<close> is a sequence of Unicode code points, so that \<^verbatim>\<open>len\<close> counts code
  points: the model is a list of code point numbers.
\<close>

type_synonym pystr = "nat list"

text \<open>
  The code points that \<^verbatim>\<open>str.split()\<close> without arguments treats as separators (the
  characters for which \<^verbatim>\<open>str.isspace\<close> holds).
\<close>

definition isspace :: "nat \<Rightarrow> bool" where
  "isspace c \<longleftrightarrow>
     c \<in> set [9, 10, 11, 12, 13, 28, 29, 30, 31, 32, 133, 160, 5760,
               8232, 8233, 8239, 8287, 12288]
     \<or> (8192 \<le> c \<and> c \<le> 8202)"

text \<open>
  \<^verbatim>\<open>text.split()\<close>: the maximal runs of non-whitespace code points, in order; runs of
  whitespace separate them and produce no empty string. \<open>str_split_from cur s\<close> scans
  \<open>s\<close> with \<open>cur\<close> the word read so far.
\<close>

fun str_split_from :: "pystr \<Rightarrow> pystr \<Rightarrow> pystr list" where
  "str_split_from cur [] = (if cur = [] then [] else [cur])"
| "str_split_from cur (c # cs) =
     (if isspace c
      then (if cur = [] then str_split_from [] cs else cur # str_split_from [] cs)
      else str_split_from (cur @ [c]) cs)"

definition str_split :: "pystr \<Rightarrow> pystr list" where
  "str_split s = str_split_from [] s"

text \<open>\<^verbatim>\<open>sep.join(xs)\<close>.\<close>

fun str_join :: "pystr \<Rightarrow> pystr list \<Rightarrow> pystr" where
  "str_join sep [] = []"
| "str_join sep (x # xs) = (if xs = [] then x else x @ sep @ str_join sep xs)"

text \<open>
  The loop of \<^verbatim>\<open>_chunk_text\<close> over the words, on the state
  (\<^verbatim>\<open>chunks\<close>, \<^verbatim>\<open>current_chunk\<close>, \<^verbatim>\<open>current_length\<close>); code point 32 is the space of
  \<^verbatim>\<open>" ".join\<close>.
\<close>

fun chunk_loop :: "int \<Rightarrow> pystr list \<Rightarrow> pystr list \<times> pystr list \<times> int
                     \<Rightarrow> pystr list \<times> pystr list \<times> int" where
  "chunk_loop max_length [] st = st"
| "chunk_loop max_length (word # words) (chunks, current_chunk, current_length) =
     (if current_length + int (length word) > max_length
      then chunk_loop max_length words
             (chunks @ [str_join [32] current_chunk], [word], int (length word))
      else chunk_loop max_length words
             (chunks, current_chunk @ [word], current_length + int (length word) + 1))"

definition chunk_text :: "pystr \<Rightarrow> int \<Rightarrow> pystr list" where
  "chunk_text text max_length =
     (case chunk_loop max_length (str_split text) ([], [], 0) of
        (chunks, current_chunk, current_length) \<Rightarrow>
          if current_chunk \<noteq> [] then chunks @ [str_join [32] current_chunk] else chunks)"

subsection \<open>Chunking keeps the words\<close>

definition is_word :: "pystr \<Rightarrow> bool" where
  "is_word w \<longleftrightarrow> w \<noteq> [] \<and> (\<forall>c \<in> set w. \<not> isspace c)"

lemma str_split_from_nospace:
  "\<forall>c \<in> set w. \<not> isspace c \<Longrightarrow> str_split_from cur (w @ rest) = str_split_from (cur @ w) rest"
  by (induction w arbitrary: cur) auto

lemma str_split_from_words:
  "\<forall>c \<in> set cur. \<not> isspace c \<Longrightarrow> \<forall>w \<in> set (str_split_from cur s). is_word w"
proof (induction s arbitrary: cur)
  case Nil
  then show ?case by (simp add: is_word_def)
next
  case (Cons c cs)
  have e: "\<forall>w \<in> set (str_split_from [] cs). is_word w"
    by (rule Cons.IH) simp
  show ?case
  proof (cases "isspace c")
    case True
    with e Cons.prems show ?thesis by (simp add: is_word_def)
  next
    case False
    with Cons.prems have "\<forall>x \<in> set (cur @ [c]). \<not> isspace x" by simp
    from Cons.IH[OF this] False show ?thesis by simp
  qed
qed

lemma str_split_words: "\<forall>w \<in> set (str_split s). is_word w"
  unfolding str_split_def by (rule str_split_from_words) simp

lemma str_split_from_space:
  "str_split_from cur (a @ 32 # b) = str_split_from cur a @ str_split b"
  by (induction a arbitrary: cur) (auto simp: str_split_def isspace_def)

lemma str_split_append_space: "str_split (a @ 32 # b) = str_split a @ str_split b"
  by (simp add: str_split_def str_split_from_space[of "[]", unfolded str_split_def])

lemma str_split_word: "is_word w \<Longrightarrow> str_split w = [w]"
  using str_split_from_nospace[of w "[]" "[]"] by (simp add: str_split_def is_word_def)

lemma str_split_join: "str_split (str_join [32] cs) = concat (map str_split cs)"
proof (induction cs)
  case Nil
  show ?case by (simp add: str_split_def)
next
  case (Cons x xs)
  then show ?case by (simp add: str_split_append_space)
qed

lemma concat_str_split_words: "\<forall>w \<in> set ws. is_word w \<Longrightarrow> concat (map str_split ws) = ws"
  by (induction ws) (simp_all add: str_split_word)

lemma str_split_join_words: "\<forall>w \<in> set ws. is_word w \<Longrightarrow> str_split (str_join [32] ws) = ws"
  by (simp only: str_split_join concat_str_split_words)

lemma chunk_loop_words:
  assumes "\<forall>w \<in> set words. is_word w" "\<forall>w \<in> set cur. is_word w"
    and "chunk_loop m words (chunks, cur, n) = (chunks', cur', n')"
  shows "concat (map str_split chunks') @ cur' = concat (map str_split chunks) @ cur @ words
         \<and> (\<forall>w \<in> set cur'. is_word w)"
  using assms
proof (induction words arbitrary: chunks cur n)
  case Nil
  then show ?case by simp
next
  case (Cons w ws)
  show ?case
  proof (cases "n + int (length w) > m")
    case True
    with Cons.prems have
      "chunk_loop m ws (chunks @ [str_join [32] cur], [w], int (length w)) = (chunks', cur', n')"
      by simp
    from Cons.IH[OF _ _ this] Cons.prems(1,2) show ?thesis
      by (simp add: str_split_join_words)
  next
    case False
    with Cons.prems have
      "chunk_loop m ws (chunks, cur @ [w], n + int (length w) + 1) = (chunks', cur', n')"
      by simp
    from Cons.IH[OF _ _ this] Cons.prems(1,2) show ?thesis
      by simp
  qed
qed

text \<open>
  C10. For every text and every \<open>max_length\<close> (positive or not), joining the chunks of
  \<^verbatim>\<open>_chunk_text\<close> with single spaces and splitting the result on whitespace gives exactly
  \<^verbatim>\<open>text.split()\<close>: no word is lost, duplicated or reordered.
\<close>

theorem chunk_text_words:
  "str_split (str_join [32] (chunk_text text max_length)) = str_split text"
proof -
  obtain chunks cur n where
    run: "chunk_loop max_length (str_split text) ([], [], 0) = (chunks, cur, n)"
    by (cases "chunk_loop max_length (str_split text) ([], [], 0)") auto
  from chunk_loop_words[OF str_split_words _ run]
  have inv: "concat (map str_split chunks) @ cur = str_split text" and w: "\<forall>w \<in> set cur. is_word w"
    by simp_all
  have "concat (map str_split (chunk_text text max_length)) = concat (map str_split chunks) @ cur"
    using run w by (cases "cur = []") (simp_all add: chunk_text_def str_split_join_words)
  with inv show ?thesis by (simp add: str_split_join)
qed

section \<open>Hand gesture heuristics (video\_service.py, VideoProcessingService)\<close>

text \<open>
  A landmark list is a list of points, each a list of coordinates \<^verbatim>\<open>[x, y, z]\<close>. Reading
  a list at an index that it does not have raises \<^verbatim>\<open>IndexError\<close> in the source: the result
  \<open>None\<close> of the model.
\<close>

definition idx :: "'a list \<Rightarrow> nat \<Rightarrow> 'a option" where
  "idx xs i = (if i < length xs then Some (xs ! i) else None)"








text \<open>
  \<^verbatim>\<open>max(items, key=...)\<close> returns the first of the maximal items, and raises on an empty
  sequence.
\<close>

fun max_from :: "('a \<Rightarrow> real) \<Rightarrow> 'a \<Rightarrow> 'a list \<Rightarrow> 'a" where
  "max_from key best [] = best"
| "max_from key best (x # xs) =
     (if key x > key best then max_from key x xs else max_from key best xs)"

definition py_max :: "('a \<Rightarrow> real) \<Rightarrow> 'a list \<Rightarrow> 'a option" where
  "py_max key xs = (case xs of [] \<Rightarrow> None | x # rest \<Rightarrow> Some (max_from key x rest))"



subsection \<open>Scores and classification on hand landmark lists\<close>












section \<open>Emotion analysis (ai\_service.py, AIService.analyze\_emotions)\<close>

text \<open>
  The face detector and the emotion network are external: the model takes their outputs,
  for each detected face its region and the vector of class probabilities, and embeds the
  processing of these outputs. Probabilities are modelled as real numbers. A raised
  exception is the result \<open>None\<close>.
\<close>

definition emotion_labels :: "string list" where
  "emotion_labels = [''angry'', ''disgust'', ''fear'', ''happy'', ''neutral'', ''sad'', ''surprise'']"

record emotion_score =
  emotion :: string
  em_confidence :: real

record face_region =
  region_x :: int
  region_y :: int
  region_width :: int
  region_height :: int

record face_emotions =
  fe_region :: face_region
  fe_emotions :: "emotion_score list"
  dominant_emotion :: string
  fe_confidence :: real

record mood =
  mood_name :: string
  mood_confidence :: real
  distribution :: "(string \<times> real) list option"

record emotion_analysis =
  faces_detected :: nat
  ea_emotions :: "face_emotions list"
  overall_mood :: mood
  ea_timestamp :: timestamp

text \<open>
  The loop over \<^verbatim>\<open>enumerate(emotion_scores)\<close>, which reads \<^verbatim>\<open>self.emotion_labels[i]\<close>.
\<close>

fun label_scores :: "nat \<Rightarrow> real list \<Rightarrow> emotion_score list option" where
  "label_scores i [] = Some []"
| "label_scores i (score_i # rest) = do {
     label \<leftarrow> idx emotion_labels i;
     entries \<leftarrow> label_scores (Suc i) rest;
     Some (\<lparr> emotion = label, em_confidence = score_i \<rparr> # entries)
   }"

text \<open>
  \<^verbatim>\<open>top_emotions.sort(key=..., reverse=True)\<close>: a stable sort into non-increasing
  confidence, entries of equal confidence keeping their order. This is the stable
  insertion sort on the negated key.
\<close>

definition sort_by_confidence :: "emotion_score list \<Rightarrow> emotion_score list" where
  "sort_by_confidence entries = sort_key (\<lambda>e. - em_confidence e) entries"

definition face_emotions_of :: "face_region \<Rightarrow> real list \<Rightarrow> face_emotions option" where
  "face_emotions_of region emotion_scores = do {
     entries \<leftarrow> label_scores 0 emotion_scores;
     let top_emotions = sort_by_confidence entries;
     first \<leftarrow> idx top_emotions 0;
     Some \<lparr> fe_region = region,
            fe_emotions = take 3 top_emotions,
            dominant_emotion = emotion first,
            fe_confidence = em_confidence first \<rparr>
   }"

fun analyze_faces :: "(face_region \<times> real list) list \<Rightarrow> face_emotions list option" where
  "analyze_faces [] = Some []"
| "analyze_faces ((region, emotion_scores) # faces) = do {
     face \<leftarrow> face_emotions_of region emotion_scores;
     others \<leftarrow> analyze_faces faces;
     Some (face # others)
   }"

text \<open>
  \<^verbatim>\<open>_calculate_overall_mood\<close>; the dictionary \<^verbatim>\<open>emotion_totals\<close> is the list of its items
  in insertion order.
\<close>

fun add_to_total :: "string \<Rightarrow> real \<Rightarrow> (string \<times> real) list \<Rightarrow> (string \<times> real) list" where
  "add_to_total k v [] = [(k, 0 + v)]"
| "add_to_total k v ((k', t) # rest) =
     (if k' = k then (k', t + v) # rest else (k', t) # add_to_total k v rest)"

definition calculate_overall_mood :: "face_emotions list \<Rightarrow> mood" where
  "calculate_overall_mood emotions_detected =
     (if emotions_detected = []
      then \<lparr> mood_name = ''neutral'', mood_confidence = 0, distribution = None \<rparr>
      else
        let (emotion_totals, total_confidence) =
              fold (\<lambda>emotion_data (totals, total).
                      (add_to_total (emotion emotion_data) (em_confidence emotion_data) totals,
                       total + em_confidence emotion_data))
                   (concat (map fe_emotions emotions_detected)) ([], 0);
            emotion_totals =
              (if total_confidence > 0
               then map (\<lambda>(k, t). (k, t / total_confidence)) emotion_totals
               else emotion_totals);
            dominant_mood = (case py_max snd emotion_totals of
                               Some best \<Rightarrow> best | None \<Rightarrow> (''neutral'', 0))
        in \<lparr> mood_name = fst dominant_mood, mood_confidence = snd dominant_mood,
             distribution = Some emotion_totals \<rparr>)"

definition analyze_emotions ::
  "timestamp \<Rightarrow> (face_region \<times> real list) list \<Rightarrow> emotion_analysis option" where
  "analyze_emotions now faces = do {
     emotions_detected \<leftarrow> analyze_faces faces;
     let overall = calculate_overall_mood emotions_detected;
     Some \<lparr> faces_detected = length faces,
            ea_emotions = emotions_detected,
            overall_mood = overall,
            ea_timestamp = now \<rparr>
   }"

subsection \<open>The entries reported for each face\<close>

lemma label_scores_Some:
  "i + length scores \<le> length emotion_labels \<Longrightarrow>
   label_scores i scores =
     Some (map (\<lambda>(j, s). \<lparr> emotion = emotion_labels ! j, em_confidence = s \<rparr>)
               (zip [i ..< i + length scores] scores))"
proof (induction scores arbitrary: i)
  case Nil
  show ?case by simp
next
  case (Cons s scores)
  from Cons.prems have i: "i < length emotion_labels" by simp
  from Cons.prems have "Suc i + length scores \<le> length emotion_labels" by simp
  from Cons.IH[OF this] have
    IH: "label_scores (Suc i) scores =
           Some (map (\<lambda>(j, s). \<lparr> emotion = emotion_labels ! j, em_confidence = s \<rparr>)
                     (zip [Suc i ..< Suc (i + length scores)] scores))"
    by simp
  have e: "[i ..< Suc (i + length scores)] = i # [Suc i ..< Suc (i + length scores)]"
    by (rule upt_conv_Cons) simp
  from IH i show ?case
    by (simp add: idx_def e del: upt_Suc)
qed

definition labelled :: "real list \<Rightarrow> string \<Rightarrow> real \<Rightarrow> bool" where
  "labelled scores label c \<longleftrightarrow>
     (\<exists>j < length scores. j < length emotion_labels
         \<and> label = emotion_labels ! j \<and> c = scores ! j)"

lemma label_scores_0:
  assumes "length scores \<le> length emotion_labels"
  shows "\<exists>entries. label_scores 0 scores = Some entries \<and> length entries = length scores
           \<and> (\<forall>e \<in> set entries. labelled scores (emotion e) (em_confidence e))
           \<and> em_confidence ` set entries = set scores"
proof -
  let ?es = "map (\<lambda>(j, s). \<lparr> emotion = emotion_labels ! j, em_confidence = s \<rparr>)
               (zip [0 ..< length scores] scores)"
  from assms have run: "label_scores 0 scores = Some ?es"
    using label_scores_Some[of 0 scores] by simp
  have l: "\<forall>e \<in> set ?es. labelled scores (emotion e) (em_confidence e)"
    using assms by (auto simp: labelled_def set_zip)
  have "map em_confidence ?es = map snd (zip [0 ..< length scores] scores)"
    by (simp add: case_prod_unfold comp_def)
  also have "\<dots> = scores" by simp
  finally have "set (map em_confidence ?es) = set scores" by (rule arg_cong)
  moreover have "em_confidence ` set ?es = set (map em_confidence ?es)"
    by (rule set_map[symmetric])
  ultimately have "em_confidence ` set ?es = set scores" by (rule ssubst[rotated])
  with run l show ?thesis by (intro exI[of _ ?es]) simp
qed

definition descending :: "emotion_score list \<Rightarrow> bool" where
  "descending es = sorted_wrt (\<lambda>a b. em_confidence a \<ge> em_confidence b) es"

lemma descending_sort: "descending (sort_by_confidence es)"
proof -
  have "sorted (map (\<lambda>e. - em_confidence e) (sort_by_confidence es))"
    by (simp add: sort_by_confidence_def)
  then show ?thesis
    by (simp add: descending_def sorted_map sorted_wrt_iff_nth_less)
qed

lemma descending_take: "descending es \<Longrightarrow> descending (take n es)"
  by (simp add: descending_def)

lemma descending_hd:
  "descending es \<Longrightarrow> es \<noteq> [] \<Longrightarrow> em_confidence (hd es) = Max (em_confidence ` set es)"
proof -
  assume d: "descending es" and n: "es \<noteq> []"
  then obtain e rest where es: "es = e # rest" by (cases es) auto
  with d have "\<forall>x \<in> set es. em_confidence x \<le> em_confidence e"
    by (auto simp: descending_def)
  then have "Max (em_confidence ` set es) = em_confidence e"
    using es by (intro Max_eqI) auto
  with es show ?thesis by simp
qed

text \<open>
  What is reported for one face, given its region and the scores of the network: the
  first three entries (all of them when there are fewer), each a label with the score at
  the label's index, in non-increasing confidence, and as dominant emotion a label whose
  score is the maximum of the scores.
\<close>

definition face_ok :: "face_region \<times> real list \<Rightarrow> face_emotions \<Rightarrow> bool" where
  "face_ok face f \<longleftrightarrow>
     (case face of (region, scores) \<Rightarrow>
        fe_region f = region
      \<and> length (fe_emotions f) = min 3 (length scores)
      \<and> (\<forall>e \<in> set (fe_emotions f).
            emotion e \<in> set emotion_labels \<and> labelled scores (emotion e) (em_confidence e))
      \<and> descending (fe_emotions f)
      \<and> dominant_emotion f \<in> set emotion_labels
      \<and> labelled scores (dominant_emotion f) (fe_confidence f)
      \<and> fe_confidence f = Max (set scores))"

lemma labelled_label: "labelled scores label c \<Longrightarrow> label \<in> set emotion_labels"
  by (auto simp: labelled_def)

lemma face_emotions_of_ok:
  assumes ne: "scores \<noteq> []" and le: "length scores \<le> length emotion_labels"
  shows "\<exists>f. face_emotions_of region scores = Some f \<and> face_ok (region, scores) f"
proof -
  from label_scores_0[OF le] obtain entries where
    run: "label_scores 0 scores = Some entries" and len: "length entries = length scores"
    and lab: "\<forall>e \<in> set entries. labelled scores (emotion e) (em_confidence e)"
    and conf: "em_confidence ` set entries = set scores"
    by blast
  let ?top = "sort_by_confidence entries"
  have set_top: "set ?top = set entries" and len_top: "length ?top = length entries"
    by (simp_all add: sort_by_confidence_def)
  from ne len len_top have top_ne: "?top \<noteq> []" by auto
  then have first: "idx ?top 0 = Some (hd ?top)"
    by (simp add: idx_def hd_conv_nth)
  let ?f = "\<lparr> fe_region = region, fe_emotions = take 3 ?top,
             dominant_emotion = emotion (hd ?top), fe_confidence = em_confidence (hd ?top) \<rparr>"
  from run first have res: "face_emotions_of region scores = Some ?f"
    by (simp add: face_emotions_of_def Let_def)
  have d: "descending (take 3 ?top)"
    by (rule descending_take) (rule descending_sort)
  have in_top: "\<forall>e \<in> set (take 3 ?top). labelled scores (emotion e) (em_confidence e)"
    using lab set_top by (auto dest: in_set_takeD)
  from top_ne have "hd ?top \<in> set entries"
    using set_top hd_in_set by blast
  with lab have dom: "labelled scores (emotion (hd ?top)) (em_confidence (hd ?top))" by simp
  have mx: "em_confidence (hd ?top) = Max (set scores)"
    using descending_hd[OF descending_sort top_ne] set_top conf by simp
  from in_top have in_labels: "\<forall>e \<in> set (take 3 ?top). emotion e \<in> set emotion_labels"
    by (blast intro: labelled_label)
  from dom have dom_label: "emotion (hd ?top) \<in> set emotion_labels"
    by (rule labelled_label)
  have "face_ok (region, scores) ?f"
    using d in_top in_labels dom dom_label mx len len_top
    by (simp add: face_ok_def min_def)
  with res show ?thesis by blast
qed

lemma analyze_faces_ok:
  "\<forall>face \<in> set faces. snd face \<noteq> [] \<and> length (snd face) \<le> length emotion_labels \<Longrightarrow>
   \<exists>fs. analyze_faces faces = Some fs \<and> list_all2 face_ok faces fs"
proof (induction faces)
  case Nil
  show ?case by simp
next
  case (Cons face faces)
  obtain region scores where face: "face = (region, scores)" by (cases face)
  with Cons.prems have "scores \<noteq> []" "length scores \<le> length emotion_labels" by simp_all
  from face_emotions_of_ok[OF this] obtain f where
    f: "face_emotions_of region scores = Some f" "face_ok (region, scores) f" by blast
  from Cons obtain fs where fs: "analyze_faces faces = Some fs" "list_all2 face_ok faces fs"
    by auto
  from f fs face show ?case by simp
qed

text \<open>
  C7. When the network gives between one and seven scores for every detected face (it has
  seven outputs), \<^verbatim>\<open>analyze_emotions\<close> returns; \<^verbatim>\<open>faces_detected\<close> is the number of detected
  faces; and for every face, in order, the \<^verbatim>\<open>emotions\<close> list has at most 3 entries
  drawn from the 7 labels, sorted in non-increasing confidence, and
  \<^verbatim>\<open>dominant_emotion\<close> is a label whose confidence is the maximum for that face.
\<close>

theorem analyze_emotions_faces:
  assumes "list_all (\<lambda>face. snd face \<noteq> [] \<and> length (snd face) \<le> length emotion_labels) faces"
  shows "\<exists>r. analyze_emotions now faces = Some r
           \<and> faces_detected r = length faces
           \<and> list_all2 face_ok faces (ea_emotions r)"
proof -
  from assms have
    "\<forall>face \<in> set faces. snd face \<noteq> [] \<and> length (snd face) \<le> length emotion_labels"
    by (simp add: list_all_iff)
  from analyze_faces_ok[OF this] obtain fs where
    "analyze_faces faces = Some fs" "list_all2 face_ok faces fs" by blast
  then show ?thesis by (simp add: analyze_emotions_def)
qed

theorem analyze_emotions_faces_witness:
  "list_all (\<lambda>face. snd face \<noteq> [] \<and> length (snd face) \<le> length emotion_labels)
     [(\<lparr>region_x = 10, region_y = 20, region_width = 64, region_height = 64\<rparr>,
       [0.1, 0.1, 0.3, 0.1, 0.3, 0.05, 0.05 :: real])]
   \<and> (\<exists>r. analyze_emotions 0
              [(\<lparr>region_x = 10, region_y = 20, region_width = 64, region_height = 64\<rparr>,
                [0.1, 0.1, 0.3, 0.1, 0.3, 0.05, 0.05])] = Some r
          \<and> faces_detected r = 1
          \<and> map dominant_emotion (ea_emotions r) = [''fear'']
          \<and> map (map emotion \<circ> fe_emotions) (ea_emotions r) = [[''fear'', ''neutral'', ''angry'']])"
proof -
  let ?faces = "[(\<lparr>region_x = 10, region_y = 20, region_width = 64, region_height = 64\<rparr>,
                  [0.1, 0.1, 0.3, 0.1, 0.3, 0.05, 0.05 :: real])]"
  have h: "list_all (\<lambda>face. snd face \<noteq> [] \<and> length (snd face) \<le> length emotion_labels)
             ?faces"
    by (simp add: emotion_labels_def)
  from analyze_emotions_faces[OF h, of 0] obtain r where
    r: "analyze_emotions 0 ?faces = Some r" and n: "faces_detected r = length ?faces"
    by (elim exE conjE) (rule that)
  have "analyze_faces ?faces =
          Some [\<lparr> fe_region = \<lparr>region_x = 10, region_y = 20, region_width = 64, region_height = 64\<rparr>,
                  fe_emotions = [\<lparr>emotion = ''fear'', em_confidence = 0.3\<rparr>,
                                 \<lparr>emotion = ''neutral'', em_confidence = 0.3\<rparr>,
                                 \<lparr>emotion = ''angry'', em_confidence = 0.1\<rparr>],
                  dominant_emotion = ''fear'', fe_confidence = 0.3 \<rparr>]"
    by (simp add: face_emotions_of_def sort_by_confidence_def idx_def emotion_labels_def)
  with r have "map dominant_emotion (ea_emotions r) = [''fear'']"
    and "map (map emotion \<circ> fe_emotions) (ea_emotions r) = [[''fear'', ''neutral'', ''angry'']]"
    by (auto simp add: analyze_emotions_def simp del: analyze_faces.simps)
  with h r n show ?thesis by simp
qed

section \<open>Lattice cipher (quantum\_service.py, PostQuantumCrypto)\<close>

text \<open>
  The arrays are lists of integers; the values stay far inside the 64-bit range of the
  source's arrays, so that the arithmetic is that of the integers, and \<^verbatim>\<open>%\<close> with a positive
  modulus is \<open>mod\<close>. A byte string is the list of its bytes. The random draws
  (\<^verbatim>\<open>np.random.randint\<close>) are parameters: each function takes the array that was drawn,
  of \<^verbatim>\<open>lattice_dimension\<close> entries. \<open>None\<close> stands for a raised \<^verbatim>\<open>ValueError\<close>.
\<close>

type_synonym bytes = "nat list"

definition lattice_dimension :: nat where
  "lattice_dimension = 512"

definition modulus :: int where
  "modulus = 2 ^ 32 - 1"

record lattice_public =
  pub_coefficients :: "int list"
  pub_dimension :: nat
  pub_modulus :: int

record lattice_private =
  priv_coefficients :: "int list"
  priv_dimension :: nat

text \<open>
  \<^verbatim>\<open>generate_lattice_keypair\<close>, with \<open>private_key\<close> the draw from \<open>{-1, 0, 1}\<close> and
  \<open>noise\<close> the draw from \<open>{-10, \<dots>, 10}\<close>.
\<close>

definition generate_lattice_keypair :: "int list \<Rightarrow> int list \<Rightarrow> lattice_public \<times> lattice_private" where
  "generate_lattice_keypair private_key noise =
     (let public_key = map2 (\<lambda>s e. (s * 3 + e) mod modulus) private_key noise
      in (\<lparr> pub_coefficients = public_key, pub_dimension = lattice_dimension,
             pub_modulus = modulus \<rparr>,
          \<lparr> priv_coefficients = private_key, priv_dimension = lattice_dimension \<rparr>))"

text \<open>
  \<^verbatim>\<open>astype(np.uint32).tobytes()\<close> and \<^verbatim>\<open>np.frombuffer(..., dtype=np.uint32)\<close>: four bytes
  per entry, least significant first; a buffer whose length is not a multiple of four is
  refused.
\<close>

definition u32_tobytes :: "int \<Rightarrow> bytes" where
  "u32_tobytes v = [nat (v mod 256), nat (v div 256 mod 256),
                    nat (v div 65536 mod 256), nat (v div 16777216 mod 256)]"

definition tobytes :: "int list \<Rightarrow> bytes" where
  "tobytes vs = concat (map u32_tobytes vs)"

definition u32_frombytes :: "nat \<Rightarrow> nat \<Rightarrow> nat \<Rightarrow> nat \<Rightarrow> int" where
  "u32_frombytes b0 b1 b2 b3 = int b0 + 256 * int b1 + 65536 * int b2 + 16777216 * int b3"

fun frombuffer :: "bytes \<Rightarrow> int list option" where
  "frombuffer [] = Some []"
| "frombuffer (b0 # b1 # b2 # b3 # rest) = do {
     vs \<leftarrow> frombuffer rest;
     Some (u32_frombytes b0 b1 b2 b3 # vs)
   }"
| "frombuffer _ = None"

text \<open>
  Elementwise arithmetic needs operands of the same length, or of length one.
\<close>

definition broadcast :: "nat \<Rightarrow> int list \<Rightarrow> int list option" where
  "broadcast n xs =
     (if length xs = n then Some xs
      else if length xs = 1 then Some (replicate n (hd xs))
      else None)"

text \<open>
  \<^verbatim>\<open>lattice_encrypt\<close>, with \<open>noise\<close> the draw from \<open>{-5, \<dots>, 5}\<close>.
\<close>

definition lattice_encrypt :: "bytes \<Rightarrow> lattice_public \<Rightarrow> int list \<Rightarrow> bytes option" where
  "lattice_encrypt message public_key noise =
     (let public_coeffs = pub_coefficients public_key;
          message_poly = map int message
      in if length message_poly > lattice_dimension then None
         else do {
           let padded_message =
                 message_poly @ replicate (lattice_dimension - length message_poly) 0;
           public_coeffs \<leftarrow> broadcast lattice_dimension public_coeffs;
           let ciphertext = map2 (\<lambda>m (e, p). (m + e * p) mod modulus)
                                 padded_message (zip noise public_coeffs);
           Some (tobytes ciphertext)
         })"

text \<open>
  \<^verbatim>\<open>lattice_decrypt\<close>: the entries are read as unsigned 32-bit values, cast to signed,
  reduced modulo 256, and the result is cut at the first zero entry. The private key is
  read and not used.
\<close>

definition as_int32 :: "int \<Rightarrow> int" where
  "as_int32 v = (if v < 2 ^ 31 then v else v - 2 ^ 32)"

fun first_zero :: "int list \<Rightarrow> nat option" where
  "first_zero [] = None"
| "first_zero (d # ds) = (if d = 0 then Some 0 else map_option Suc (first_zero ds))"

definition lattice_decrypt :: "bytes \<Rightarrow> lattice_private \<Rightarrow> bytes option" where
  "lattice_decrypt ciphertext private_key = do {
     words \<leftarrow> frombuffer ciphertext;
     let cipher_poly = map as_int32 words;
     let decrypted = map (\<lambda>c. c mod 256) cipher_poly;
     let message_bytes = map nat decrypted;
     Some (case first_zero decrypted of
             Some end_idx \<Rightarrow> take end_idx message_bytes
           | None \<Rightarrow> message_bytes)
   }"

text \<open>
  Key generation, encryption and decryption in sequence, as
  \<^verbatim>\<open>generate_keys\<close>, \<^verbatim>\<open>encrypt_data\<close> and \<^verbatim>\<open>decrypt_data\<close> chain them.
\<close>

definition encrypt_then_decrypt ::
  "int list \<Rightarrow> int list \<Rightarrow> bytes \<Rightarrow> int list \<Rightarrow> bytes option" where
  "encrypt_then_decrypt private_draw key_noise message noise =
     (case generate_lattice_keypair private_draw key_noise of
        (public_key, private_key) \<Rightarrow> do {
          ciphertext \<leftarrow> lattice_encrypt message public_key noise;
          lattice_decrypt ciphertext private_key
        })"

subsection \<open>Decryption does not invert encryption\<close>

lemma u32_bytes_value:
  assumes "0 \<le> v" "v < 2 ^ 32"
  shows "u32_frombytes (nat (v mod 256)) (nat (v div 256 mod 256))
           (nat (v div 65536 mod 256)) (nat (v div 16777216 mod 256)) = v"
proof -
  define x0 x1 x2 x3 where "x0 = v mod 256" and "x1 = v div 256 mod 256"
    and "x2 = v div 65536 mod 256" and "x3 = v div 16777216 mod 256"
  define A B C where "A = v div 256" and "B = v div 65536" and "C = v div 16777216"
  have a: "256 * A + x0 = v"
    unfolding A_def x0_def by (rule mult_div_mod_eq)
  have "A div 256 = B"
    unfolding A_def B_def by (simp add: zdiv_zmult2_eq[symmetric])
  then have b: "256 * B + x1 = A"
    using mult_div_mod_eq[of 256 A] by (simp add: x1_def A_def)
  have "B div 256 = C"
    unfolding B_def C_def by (simp add: zdiv_zmult2_eq[symmetric])
  then have c: "256 * C + x2 = B"
    using mult_div_mod_eq[of 256 B] by (simp add: x2_def B_def)
  from assms have "0 \<le> C" "C < 256"
    unfolding C_def by (simp_all add: div_less_iff_less_mult)
  then have d: "x3 = C"
    unfolding x3_def C_def by simp
  have v: "x0 + 256 * x1 + 65536 * x2 + 16777216 * x3 = v"
    using a b c d by linarith
  have nn: "0 \<le> x0" "0 \<le> x1" "0 \<le> x2" "0 \<le> x3"
    unfolding x0_def x1_def x2_def x3_def by simp_all
  have "int (nat x0) + 256 * int (nat x1) + 65536 * int (nat x2) + 16777216 * int (nat x3)
        = x0 + 256 * x1 + 65536 * x2 + 16777216 * x3"
    using nn by simp
  also note v
  finally show ?thesis
    unfolding x0_def x1_def x2_def x3_def u32_frombytes_def .
qed

lemma frombuffer_u32:
  assumes "0 \<le> v" "v < 2 ^ 32"
  shows "frombuffer (u32_tobytes v @ rest) = do { vs \<leftarrow> frombuffer rest; Some (v # vs) }"
proof -
  have "frombuffer (u32_tobytes v @ rest) = do {
          vs \<leftarrow> frombuffer rest;
          Some (u32_frombytes (nat (v mod 256)) (nat (v div 256 mod 256))
                  (nat (v div 65536 mod 256)) (nat (v div 16777216 mod 256)) # vs) }"
    by (simp only: u32_tobytes_def append_Cons append_Nil frombuffer.simps)
  then show ?thesis
    by (simp only: u32_bytes_value[OF assms])
qed

lemma frombuffer_tobytes:
  "\<forall>v \<in> set vs. 0 \<le> v \<and> v < 2 ^ 32 \<Longrightarrow> frombuffer (tobytes vs) = Some vs"
proof (induction vs)
  case Nil
  show ?case by (simp add: tobytes_def)
next
  case (Cons v vs)
  then have IH: "frombuffer (tobytes vs) = Some vs" and v: "0 \<le> v" "v < 2 ^ 32" by simp_all
  have "frombuffer (tobytes (v # vs)) = frombuffer (u32_tobytes v @ tobytes vs)"
    by (simp add: tobytes_def)
  also have "\<dots> = do { vs' \<leftarrow> frombuffer (tobytes vs); Some (v # vs') }"
    by (rule frombuffer_u32[OF v])
  also have "\<dots> = Some (v # vs)"
    by (simp add: IH)
  finally show ?case .
qed

lemma replicate_512: "replicate 512 x = x # replicate 511 x"
  by (simp add: replicate_Suc[symmetric] del: replicate_Suc)

lemma first_zero_zeros: "0 < n \<Longrightarrow> first_zero (replicate n 0) = Some 0"
  by (cases n) simp_all

text \<open>
  C3 (the claim: decrypting an encrypted message of 1 to 512 bytes gives the message
  back). With the private key drawn as all ones and no key noise, the public key is all
  threes; with the encryption noise 1 at the first position and 0 elsewhere, the one-byte
  message \<^verbatim>\<open>b"A"\<close> (byte 65) is encrypted to the array 68, 0, 0, \<dots> and decrypted to
  \<^verbatim>\<open>b"D"\<close> (byte 68).
\<close>

theorem lattice_roundtrip_fails:
  "encrypt_then_decrypt (replicate 512 1) (replicate 512 0) [65] (1 # replicate 511 0) = Some [68]"
proof -
  let ?ct = "68 # replicate 511 (0::int)"
  let ?pk = "\<lparr> pub_coefficients = replicate 512 3, pub_dimension = lattice_dimension,
               pub_modulus = modulus \<rparr>"
  let ?sk = "\<lparr> priv_coefficients = replicate 512 1, priv_dimension = lattice_dimension \<rparr>"
  have "map2 (\<lambda>s e. (s * 3 + e) mod modulus) (replicate 512 1) (replicate 512 0)
        = replicate 512 3"
    by (simp add: zip_replicate modulus_def)
  then have keys: "generate_lattice_keypair (replicate 512 1) (replicate 512 0) = (?pk, ?sk)"
    by (simp add: generate_lattice_keypair_def)
  have "map2 (\<lambda>m (e, p). (m + e * p) mod modulus) (65 # replicate 511 0)
          (zip (1 # replicate 511 0) (3 # replicate 511 3)) = ?ct"
    by (simp add: zip_replicate modulus_def)
  then have enc: "lattice_encrypt [65] ?pk (1 # replicate 511 0) = Some (tobytes ?ct)"
    by (simp add: lattice_encrypt_def lattice_dimension_def broadcast_def replicate_512)
  have "frombuffer (tobytes ?ct) = Some ?ct"
    by (rule frombuffer_tobytes) simp
  then have dec: "lattice_decrypt (tobytes ?ct) ?sk = Some [68]"
    by (simp add: lattice_decrypt_def as_int32_def first_zero_zeros)
  show ?thesis
    unfolding encrypt_then_decrypt_def keys by (simp add: enc dec)
qed

section \<open>BB84 key generation (quantum\_service.py, QuantumKeyDistribution)\<close>

text \<open>
  The random draws are parameters of the model: \<open>randbelow i\<close> is the outcome of the
  \<open>i\<close>-th call of \<^verbatim>\<open>secrets.randbelow(2)\<close> (true for 1) and \<open>random_byte i\<close> the
  \<open>i\<close>-th byte drawn by \<^verbatim>\<open>secrets.token_hex\<close>. \<open>None\<close> stands for a raised
  \<^verbatim>\<open>ValueError\<close>. The circuits run on the simulator produce \<^verbatim>\<open>measured_bits\<close>, which
  the function does not use afterwards.
\<close>

text \<open>\<^verbatim>\<open>hex(v)[2:]\<close>: the lower-case hexadecimal digits of \<open>v\<close>, without leading zeros.\<close>

definition hex_digit :: "nat \<Rightarrow> char" where
  "hex_digit d = ''0123456789abcdef'' ! d"

function hex :: "nat \<Rightarrow> string" where
  "hex n = (if n < 16 then [hex_digit n] else hex (n div 16) @ [hex_digit (n mod 16)])"
  by pat_completeness auto
termination
  by (relation "measure id") auto

declare hex.simps [simp del]

text \<open>\<^verbatim>\<open>s.zfill(width)\<close> on a string without sign.\<close>

definition zfill :: "int \<Rightarrow> string \<Rightarrow> string" where
  "zfill width s = replicate (nat width - length s) CHR ''0'' @ s"

definition str_bit :: "bool \<Rightarrow> char" where
  "str_bit b = (if b then CHR ''1'' else CHR ''0'')"

text \<open>\<^verbatim>\<open>int(s, 2)\<close> on a string of binary digits; the empty string is refused.\<close>

fun int_base2_from :: "nat \<Rightarrow> string \<Rightarrow> nat option" where
  "int_base2_from acc [] = Some acc"
| "int_base2_from acc (c # cs) =
     (if c = CHR ''0'' then int_base2_from (2 * acc) cs
      else if c = CHR ''1'' then int_base2_from (2 * acc + 1) cs
      else None)"

definition int_base2 :: "string \<Rightarrow> nat option" where
  "int_base2 s = (if s = [] then None else int_base2_from 0 s)"

text \<open>
  \<^verbatim>\<open>secrets.token_hex(nbytes)\<close>: two hexadecimal digits for each of \<open>nbytes\<close> random
  bytes; a negative number of bytes is refused.
\<close>

definition token_hex :: "(nat \<Rightarrow> nat) \<Rightarrow> int \<Rightarrow> string option" where
  "token_hex random_byte nbytes =
     (if nbytes < 0 then None
      else Some (concat (map (\<lambda>i. [hex_digit (random_byte i mod 256 div 16),
                                      hex_digit (random_byte i mod 256 mod 16)])
                             [0 ..< nat nbytes])))"

text \<open>
  \<open>draws randbelow start n\<close> is the list of \<open>n\<close> consecutive draws beginning with
  draw number \<open>start\<close>; \<open>sift\<close> is the loop that keeps Alice's bit at each
  position where the two bases are equal.
\<close>

definition draws :: "(nat \<Rightarrow> bool) \<Rightarrow> nat \<Rightarrow> nat \<Rightarrow> bool list" where
  "draws randbelow start n = map randbelow [start ..< start + n]"

definition sift :: "bool list \<Rightarrow> bool list \<Rightarrow> bool list \<Rightarrow> bool list" where
  "sift alice_bits alice_bases bob_bases =
     map (\<lambda>i. alice_bits ! i)
         (filter (\<lambda>i. alice_bases ! i = bob_bases ! i) [0 ..< length alice_bits])"

definition generate_bb84_key ::
  "bool \<Rightarrow> (nat \<Rightarrow> bool) \<Rightarrow> (nat \<Rightarrow> nat) \<Rightarrow> int \<Rightarrow> (string \<times> bool list \<times> bool list) option" where
  "generate_bb84_key qiskit_available randbelow random_byte key_length =
     (if \<not> qiskit_available
      then do { key \<leftarrow> token_hex random_byte (key_length div 8); Some (key, [], []) }
      else
        let n = nat (key_length * 2);
            alice_bits = draws randbelow 0 n;
            alice_bases = draws randbelow n n;
            bob_bases = draws randbelow (2 * n) n;
            sifted_key = sift alice_bits alice_bases bob_bases;
            key_string = map str_bit (take (nat key_length) sifted_key)
        in do {
          v \<leftarrow> int_base2 key_string;
          let key_hex = zfill (key_length div 4) (hex v);
          Some (key_hex, alice_bases, bob_bases)
        })"

subsection \<open>The key that is returned\<close>

text \<open>
  The number that a list of bits spells in binary, the number that a string of
  hexadecimal digits spells, and the strings of hexadecimal digits.
\<close>

definition bits_value :: "bool list \<Rightarrow> nat" where
  "bits_value bits = foldl (\<lambda>acc b. 2 * acc + (if b then 1 else 0)) 0 bits"

definition digit_value :: "char \<Rightarrow> nat" where
  "digit_value c = length (takeWhile (\<lambda>d. d \<noteq> c) ''0123456789abcdef'')"

definition hex_value :: "string \<Rightarrow> nat" where
  "hex_value s = foldl (\<lambda>acc c. 16 * acc + digit_value c) 0 s"

definition is_hex :: "string \<Rightarrow> bool" where
  "is_hex s \<longleftrightarrow> set s \<subseteq> set ''0123456789abcdef''"

lemma sift_nths:
  "sift bits as bs = nths bits {i. as ! i = bs ! i}"
proof -
  have "map ((!) xs) (filter P [0 ..< length xs]) = nths xs {i. P i}" for xs :: "bool list" and P
  proof (induction xs rule: rev_induct)
    case Nil
    show ?case by simp
  next
    case (snoc x xs)
    have "map ((!) (xs @ [x])) (filter P [0 ..< length xs]) = map ((!) xs) (filter P [0 ..< length xs])"
      by (rule map_cong) (auto simp: nth_append)
    with snoc show ?case
      by (simp add: nths_append)
  qed
  then show ?thesis by (simp add: sift_def)
qed

lemma int_base2_from_bits:
  "int_base2_from acc (map str_bit bits) =
     Some (foldl (\<lambda>acc b. 2 * acc + (if b then 1 else 0)) acc bits)"
  by (induction bits arbitrary: acc) (simp_all add: str_bit_def)

lemma int_base2_bits:
  "int_base2 (map str_bit bits) = (if bits = [] then None else Some (bits_value bits))"
  by (simp add: int_base2_def bits_value_def int_base2_from_bits)

lemma foldl_bits_bound:
  "foldl (\<lambda>acc b. 2 * acc + (if b then 1 else 0)) (acc::nat) bits < (acc + 1) * 2 ^ length bits"
proof (induction bits arbitrary: acc)
  case Nil
  show ?case by simp
next
  case (Cons b bits)
  have "foldl (\<lambda>acc b. 2 * acc + (if b then 1 else 0)) (2 * acc + (if b then 1 else 0)) bits
        < (2 * acc + (if b then 1 else 0) + 1) * 2 ^ length bits"
    by (rule Cons.IH)
  also have "\<dots> \<le> (2 * acc + 2) * 2 ^ length bits"
    by (rule mult_right_mono) simp_all
  also have "\<dots> = (acc + 1) * 2 ^ length (b # bits)"
    by simp
  finally show ?case by simp
qed

lemma bits_value_bound: "bits_value bits < 2 ^ length bits"
  using foldl_bits_bound[of 0 bits] by (simp add: bits_value_def)

lemma digit_value_hex_digit: "d < 16 \<Longrightarrow> digit_value (hex_digit d) = d"
proof -
  have "\<forall>d \<in> set [0 ..< 16]. digit_value (hex_digit d) = d"
    by code_simp
  then show "d < 16 \<Longrightarrow> digit_value (hex_digit d) = d" by simp
qed

lemma hex_digit_is_hex: "d < 16 \<Longrightarrow> hex_digit d \<in> set ''0123456789abcdef''"
proof -
  have "\<forall>d \<in> set [0 ..< 16]. hex_digit d \<in> set ''0123456789abcdef''"
    by code_simp
  then show "d < 16 \<Longrightarrow> hex_digit d \<in> set ''0123456789abcdef''" by simp
qed

lemma hex_nonempty: "hex n \<noteq> []"
  by (subst hex.simps) simp

lemma hex_length: "0 < w \<Longrightarrow> n < 16 ^ w \<Longrightarrow> length (hex n) \<le> w"
proof (induction n arbitrary: w rule: hex.induct)
  case (1 n)
  show ?case
  proof (cases "n < 16")
    case True
    with "1.prems" show ?thesis by (subst hex.simps) simp
  next
    case False
    with "1.prems" have w: "1 < w"
      by (cases "w = 1") auto
    then obtain w' where w': "w = Suc w'" "0 < w'"
      by (cases w) auto
    with "1.prems" have "n div 16 < 16 ^ w'"
      by (simp add: less_mult_imp_div_less mult.commute)
    from "1.IH"[OF False w'(2) this] False w' show ?thesis
      by (subst hex.simps) simp
  qed
qed

lemma hex_value_snoc: "hex_value (s @ [c]) = 16 * hex_value s + digit_value c"
  by (simp add: hex_value_def)

lemma hex_value_hex: "hex_value (hex n) = n"
proof (induction n rule: hex.induct)
  case (1 n)
  show ?case
  proof (cases "n < 16")
    case True
    then show ?thesis
      by (subst hex.simps) (simp add: hex_value_def digit_value_hex_digit)
  next
    case False
    with "1.IH" have "hex_value (hex (n div 16)) = n div 16" by simp
    with False show ?thesis
      by (subst hex.simps) (simp add: hex_value_snoc digit_value_hex_digit)
  qed
qed

lemma is_hex_hex: "is_hex (hex n)"
proof (induction n rule: hex.induct)
  case (1 n)
  show ?case
  proof (cases "n < 16")
    case True
    then show ?thesis
      using hex_digit_is_hex[of n] by (subst hex.simps) (simp add: is_hex_def)
  next
    case False
    with "1.IH" have "is_hex (hex (n div 16))" by simp
    with False show ?thesis
      using hex_digit_is_hex[of "n mod 16"] by (subst hex.simps) (simp add: is_hex_def)
  qed
qed

lemma hex_value_zeros: "hex_value (replicate k CHR ''0'' @ s) = hex_value s"
proof -
  have "foldl (\<lambda>acc c. 16 * acc + digit_value c) 0 (replicate k CHR ''0'') = 0"
    by (induction k) (simp_all add: digit_value_def)
  then show ?thesis by (simp add: hex_value_def)
qed

lemma zfill_hex:
  assumes "0 < w" "n < 16 ^ nat w"
  shows "length (zfill w (hex n)) = nat w" "hex_value (zfill w (hex n)) = n"
    "is_hex (zfill w (hex n))"
proof -
  from assms have "length (hex n) \<le> nat w"
    by (intro hex_length) simp_all
  then show "length (zfill w (hex n)) = nat w"
    by (simp add: zfill_def)
  show "hex_value (zfill w (hex n)) = n"
    by (simp add: zfill_def hex_value_zeros hex_value_hex)
  show "is_hex (zfill w (hex n))"
    using is_hex_hex[of n] by (auto simp: zfill_def is_hex_def)
qed

lemma sift_empty:
  "sift bits as bs = [] \<longleftrightarrow> \<not> (\<exists>i < length bits. as ! i = bs ! i)"
  by (auto simp: sift_def filter_empty_conv)

lemma token_hex_key:
  assumes "0 \<le> nbytes"
  shows "\<exists>key. token_hex random_byte nbytes = Some key \<and> length key = 2 * nat nbytes \<and> is_hex key"
proof -
  let ?pair = "\<lambda>i. [hex_digit (random_byte i mod 256 div 16), hex_digit (random_byte i mod 256 mod 16)]"
  have len: "length (concat (map ?pair xs)) = 2 * length xs" for xs
    by (induction xs) simp_all
  have "random_byte i mod 256 div 16 < 16" for i
    by (simp add: less_mult_imp_div_less)
  then have "is_hex (?pair i)" for i
    using hex_digit_is_hex by (simp add: is_hex_def)
  then have "is_hex (concat (map ?pair xs))" for xs
    by (induction xs) (auto simp: is_hex_def)
  with assms len show ?thesis
    by (simp add: token_hex_def)
qed

text \<open>
  C4, as amended. Let \<open>alice_bits\<close>, \<open>alice_bases\<close> and \<open>bob_bases\<close> be the three
  lists of \<open>2 * key_length\<close> draws. With the simulator available, when \<open>key_length\<close> is
  a positive multiple of 4 and the bases coincide at one position at least, the function
  returns both basis lists and a key of exactly \<open>key_length / 4\<close> hexadecimal digits,
  whose value is the binary number spelled by the first \<open>key_length\<close> of Alice's bits at
  the positions where the bases coincide, in order. Without the simulator, for
  \<open>key_length \<ge> 0\<close>, it returns two empty lists and a key of \<open>2 * (key_length div 8)\<close>
  hexadecimal digits, that is \<open>8 * (key_length div 8)\<close> bits.
\<close>

theorem generate_bb84_key_sifted:
  assumes "alice_bits = draws randbelow 0 (nat (key_length * 2))"
    and "alice_bases = draws randbelow (nat (key_length * 2)) (nat (key_length * 2))"
    and "bob_bases = draws randbelow (2 * nat (key_length * 2)) (nat (key_length * 2))"
  shows "(0 < key_length \<and> 4 dvd key_length
            \<and> (\<exists>i < length alice_bits. alice_bases ! i = bob_bases ! i)
          \<longrightarrow> (\<exists>key. generate_bb84_key True randbelow random_byte key_length
                        = Some (key, alice_bases, bob_bases)
                   \<and> length key = nat (key_length div 4) \<and> is_hex key
                   \<and> hex_value key =
                       bits_value (take (nat key_length)
                                     (nths alice_bits {i. alice_bases ! i = bob_bases ! i}))))
       \<and> (0 \<le> key_length
          \<longrightarrow> (\<exists>key. generate_bb84_key False randbelow random_byte key_length
                        = Some (key, [], [])
                   \<and> length key = 2 * nat (key_length div 8) \<and> is_hex key))"
proof (intro conjI impI)
  assume "0 \<le> key_length"
  then have "0 \<le> key_length div 8" by simp
  from token_hex_key[OF this, of random_byte]
  show "\<exists>key. generate_bb84_key False randbelow random_byte key_length = Some (key, [], [])
           \<and> length key = 2 * nat (key_length div 8) \<and> is_hex key"
    by (auto simp: generate_bb84_key_def)
next
  assume h: "0 < key_length \<and> 4 dvd key_length
             \<and> (\<exists>i < length alice_bits. alice_bases ! i = bob_bases ! i)"
  let ?sifted = "sift alice_bits alice_bases bob_bases"
  let ?bits = "take (nat key_length) ?sifted"
  let ?w = "key_length div 4"
  from h have "?sifted \<noteq> []"
    by (simp add: sift_empty)
  with h have ne: "?bits \<noteq> []" by simp
  from h obtain m where m: "key_length = 4 * m" "0 < m"
    by (auto elim: dvdE)
  then have w: "0 < ?w" "nat key_length = 4 * nat ?w"
    by simp_all
  have "bits_value ?bits < 2 ^ length ?bits"
    by (rule bits_value_bound)
  also have "\<dots> \<le> 2 ^ nat key_length"
    by (rule power_increasing) simp_all
  also have "\<dots> = (16::nat) ^ nat ?w"
    by (simp add: w(2) power_mult)
  finally have bound: "bits_value ?bits < 16 ^ nat ?w" .
  let ?key = "zfill ?w (hex (bits_value ?bits))"
  have run: "generate_bb84_key True randbelow random_byte key_length
             = Some (?key, alice_bases, bob_bases)"
    using ne by (simp add: generate_bb84_key_def Let_def assms[symmetric] int_base2_bits)
  from zfill_hex[OF w(1) bound] run
  show "\<exists>key. generate_bb84_key True randbelow random_byte key_length
                        = Some (key, alice_bases, bob_bases)
                   \<and> length key = nat (key_length div 4) \<and> is_hex key
                   \<and> hex_value key =
                       bits_value (take (nat key_length)
                                     (nths alice_bits {i. alice_bases ! i = bob_bases ! i}))"
    by (simp add: sift_nths)
qed

text \<open>
  Three random sources: every draw is 1; the draws number 16 and later are 1 and the
  earlier ones 0 (for \<open>key_length = 4\<close>: Alice's bits and bases are 0 and Bob's bases
  are 1); every random byte is 0.
\<close>

definition all_ones :: "nat \<Rightarrow> bool" where "all_ones i = True"
definition bases_differ :: "nat \<Rightarrow> bool" where "bases_differ i = (i \<ge> 16)"
definition zero_bytes :: "nat \<Rightarrow> nat" where "zero_bytes i = 0"

text \<open>
  C4 as stated fails. For \<open>key_length = 6\<close> with all draws 1 the key is \<^verbatim>\<open>3f\<close>: two
  digits, not \<open>6 / 4\<close>. For \<open>key_length = 4\<close> with no coinciding basis the call raises
  and returns no key. Without the simulator, for \<open>key_length = 20\<close> the key has four
  digits: 16 bits, not 20.
\<close>

theorem generate_bb84_key_counterexample:
  "generate_bb84_key True all_ones zero_bytes 6
     = Some (''3f'', replicate 12 True, replicate 12 True)
   \<and> generate_bb84_key True bases_differ zero_bytes 4 = None
   \<and> generate_bb84_key False all_ones zero_bytes 20 = Some (''0000'', [], [])"
  by code_simp

theorem generate_bb84_key_sifted_witness:
  "0 < (4::int) \<and> (4::int) dvd 4
   \<and> (\<exists>i < length (draws all_ones 0 8). draws all_ones 8 8 ! i = draws all_ones 16 8 ! i)
   \<and> (\<exists>key. generate_bb84_key True all_ones zero_bytes 4
                 = Some (key, draws all_ones 8 8, draws all_ones 16 8)
            \<and> length key = 1 \<and> is_hex key
            \<and> hex_value key = bits_value (take 4 (nths (draws all_ones 0 8)
                                      {i. draws all_ones 8 8 ! i = draws all_ones 16 8 ! i})))
   \<and> generate_bb84_key True all_ones zero_bytes 4
         = Some (''f'', replicate 8 True, replicate 8 True)
   \<and> (\<exists>key. generate_bb84_key False all_ones zero_bytes 4 = Some (key, [], [])
            \<and> length key = 0)"
proof -
  have m: "\<exists>i < length (draws all_ones 0 8). draws all_ones 8 8 ! i = draws all_ones 16 8 ! i"
    by (rule exI[of _ 0]) (simp add: draws_def all_ones_def)
  have v: "generate_bb84_key True all_ones zero_bytes 4
             = Some (''f'', replicate 8 True, replicate 8 True)"
    by code_simp
  note inst = generate_bb84_key_sifted[where alice_bits = "draws all_ones 0 8"
      and alice_bases = "draws all_ones 8 8" and bob_bases = "draws all_ones 16 8"
      and randbelow = all_ones and random_byte = zero_bytes and key_length = 4]
  have a: "0 < (4::int)" "(4::int) dvd 4" by simp_all
  have both: "(0 < (4::int) \<and> (4::int) dvd 4
            \<and> (\<exists>i < length (draws all_ones 0 8). draws all_ones 8 8 ! i = draws all_ones 16 8 ! i)
          \<longrightarrow> (\<exists>key. generate_bb84_key True all_ones zero_bytes 4
                        = Some (key, draws all_ones 8 8, draws all_ones 16 8)
                   \<and> length key = nat (4 div 4) \<and> is_hex key
                   \<and> hex_value key =
                       bits_value (take (nat 4)
                                     (nths (draws all_ones 0 8)
                                        {i. draws all_ones 8 8 ! i = draws all_ones 16 8 ! i}))))
       \<and> (0 \<le> (4::int)
          \<longrightarrow> (\<exists>key. generate_bb84_key False all_ones zero_bytes 4
                        = Some (key, [], [])
                   \<and> length key = 2 * nat (4 div 8) \<and> is_hex key))"
    by (rule inst) simp_all
  from both a m have
    "\<exists>key. generate_bb84_key True all_ones zero_bytes 4
                        = Some (key, draws all_ones 8 8, draws all_ones 16 8)
                   \<and> length key = nat (4 div 4) \<and> is_hex key
                   \<and> hex_value key =
                       bits_value (take (nat 4)
                                     (nths (draws all_ones 0 8)
                                        {i. draws all_ones 8 8 ! i = draws all_ones 16 8 ! i}))"
    by blast
  then have p1: "\<exists>key. generate_bb84_key True all_ones zero_bytes 4
                 = Some (key, draws all_ones 8 8, draws all_ones 16 8)
            \<and> length key = 1 \<and> is_hex key
            \<and> hex_value key = bits_value (take 4 (nths (draws all_ones 0 8)
                                      {i. draws all_ones 8 8 ! i = draws all_ones 16 8 ! i}))"
    by simp
  from both have
    "\<exists>key. generate_bb84_key False all_ones zero_bytes 4 = Some (key, [], [])
                   \<and> length key = 2 * nat (4 div 8) \<and> is_hex key"
    by simp
  then have p2: "\<exists>key. generate_bb84_key False all_ones zero_bytes 4 = Some (key, [], [])
            \<and> length key = 0"
    by auto
  from a m p1 v p2 show ?thesis by (intro conjI)
qed

section \<open>REST endpoints (main.py)\<close>

text \<open>
  A handler awaits one service call inside \<^verbatim>\<open>try\<close> / \<^verbatim>\<open>except Exception\<close>. The model
  takes the outcome of that call: \<open>Inr result\<close> when it returns, \<open>Inl e\<close> when it
  raises the exception \<open>e\<close> (an instance of \<^verbatim>\<open>Exception\<close>, whose \<^verbatim>\<open>str(e)\<close> is \<open>str e\<close>).
  A handler either returns a result, raises an \<^verbatim>\<open>HTTPException\<close> with a status code and a
  detail, or lets an exception propagate.
\<close>

datatype exception = Exception (str: string)

datatype 'r response = Returned 'r | HTTPException nat string | Propagated exception

text \<open>
  The dependency \<^verbatim>\<open>get_current_user\<close>, run before the handlers that declare it;
  \<open>token_check\<close> is the outcome of \<^verbatim>\<open>validate_token\<close>.
\<close>

definition get_current_user :: "exception + 'u \<Rightarrow> 'r response + 'u" where
  "get_current_user token_check =
     (case token_check of
        Inr user \<Rightarrow> Inr user
      | Inl e \<Rightarrow> Inl (HTTPException 401 ''Invalid authentication credentials''))"

definition login :: "exception + 'r \<Rightarrow> 'r response" where
  "login service_call =
     (case service_call of
        Inr result \<Rightarrow> Returned result
      | Inl e \<Rightarrow> HTTPException 401 (str e))"

definition register :: "exception + 'r \<Rightarrow> 'r response" where
  "register service_call =
     (case service_call of
        Inr result \<Rightarrow> Returned result
      | Inl e \<Rightarrow> HTTPException 400 (str e))"

text \<open>
  The handlers with \<^verbatim>\<open>user=Depends(get_current_user)\<close>: when the dependency raises, its
  \<^verbatim>\<open>HTTPException\<close> is the response and the handler's body does not run.
\<close>

definition transcribe_audio ::
  "exception + 'u \<Rightarrow> exception + 'r \<Rightarrow> 'r response" where
  "transcribe_audio token_check service_call =
     (case get_current_user token_check of
        Inl http_error \<Rightarrow> http_error
      | Inr user \<Rightarrow>
          (case service_call of
             Inr result \<Rightarrow> Returned result
           | Inl e \<Rightarrow> HTTPException 500 (str e)))"

definition translate_text ::
  "exception + 'u \<Rightarrow> exception + 'r \<Rightarrow> 'r response" where
  "translate_text token_check service_call =
     (case get_current_user token_check of
        Inl http_error \<Rightarrow> http_error
      | Inr user \<Rightarrow>
          (case service_call of
             Inr result \<Rightarrow> Returned result
           | Inl e \<Rightarrow> HTTPException 500 (str e)))"

definition summarize_meeting ::
  "exception + 'u \<Rightarrow> exception + 'r \<Rightarrow> 'r response" where
  "summarize_meeting token_check service_call =
     (case get_current_user token_check of
        Inl http_error \<Rightarrow> http_error
      | Inr user \<Rightarrow>
          (case service_call of
             Inr result \<Rightarrow> Returned result
           | Inl e \<Rightarrow> HTTPException 500 (str e)))"

definition analyze_emotions_endpoint ::
  "exception + 'u \<Rightarrow> exception + 'r \<Rightarrow> 'r response" where
  "analyze_emotions_endpoint token_check service_call =
     (case get_current_user token_check of
        Inl http_error \<Rightarrow> http_error
      | Inr user \<Rightarrow>
          (case service_call of
             Inr result \<Rightarrow> Returned result
           | Inl e \<Rightarrow> HTTPException 500 (str e)))"

definition enhance_video ::
  "exception + 'u \<Rightarrow> exception + 'r \<Rightarrow> 'r response" where
  "enhance_video token_check service_call =
     (case get_current_user token_check of
        Inl http_error \<Rightarrow> http_error
      | Inr user \<Rightarrow>
          (case service_call of
             Inr result \<Rightarrow> Returned result
           | Inl e \<Rightarrow> HTTPException 500 (str e)))"

definition remove_background ::
  "exception + 'u \<Rightarrow> exception + 'r \<Rightarrow> 'r response" where
  "remove_background token_check service_call =
     (case get_current_user token_check of
        Inl http_error \<Rightarrow> http_error
      | Inr user \<Rightarrow>
          (case service_call of
             Inr result \<Rightarrow> Returned result
           | Inl e \<Rightarrow> HTTPException 500 (str e)))"

definition recognize_gestures ::
  "exception + 'u \<Rightarrow> exception + 'r \<Rightarrow> 'r response" where
  "recognize_gestures token_check service_call =
     (case get_current_user token_check of
        Inl http_error \<Rightarrow> http_error
      | Inr user \<Rightarrow>
          (case service_call of
             Inr result \<Rightarrow> Returned result
           | Inl e \<Rightarrow> HTTPException 500 (str e)))"

definition generate_quantum_keys ::
  "exception + 'u \<Rightarrow> exception + 'r \<Rightarrow> 'r response" where
  "generate_quantum_keys token_check service_call =
     (case get_current_user token_check of
        Inl http_error \<Rightarrow> http_error
      | Inr user \<Rightarrow>
          (case service_call of
             Inr result \<Rightarrow> Returned result
           | Inl e \<Rightarrow> HTTPException 500 (str e)))"

definition quantum_encrypt ::
  "exception + 'u \<Rightarrow> exception + 'r \<Rightarrow> 'r response" where
  "quantum_encrypt token_check service_call =
     (case get_current_user token_check of
        Inl http_error \<Rightarrow> http_error
      | Inr user \<Rightarrow>
          (case service_call of
             Inr result \<Rightarrow> Returned result
           | Inl e \<Rightarrow> HTTPException 500 (str e)))"

definition create_blockchain_identity ::
  "exception + 'u \<Rightarrow> exception + 'r \<Rightarrow> 'r response" where
  "create_blockchain_identity token_check service_call =
     (case get_current_user token_check of
        Inl http_error \<Rightarrow> http_error
      | Inr user \<Rightarrow>
          (case service_call of
             Inr result \<Rightarrow> Returned result
           | Inl e \<Rightarrow> HTTPException 500 (str e)))"

definition verify_credential_endpoint ::
  "exception + 'u \<Rightarrow> exception + 'r \<Rightarrow> 'r response" where
  "verify_credential_endpoint token_check service_call =
     (case get_current_user token_check of
        Inl http_error \<Rightarrow> http_error
      | Inr user \<Rightarrow>
          (case service_call of
             Inr result \<Rightarrow> Returned result
           | Inl e \<Rightarrow> HTTPException 500 (str e)))"

definition process_neural_signals ::
  "exception + 'u \<Rightarrow> exception + 'r \<Rightarrow> 'r response" where
  "process_neural_signals token_check service_call =
     (case get_current_user token_check of
        Inl http_error \<Rightarrow> http_error
      | Inr user \<Rightarrow>
          (case service_call of
             Inr result \<Rightarrow> Returned result
           | Inl e \<Rightarrow> HTTPException 500 (str e)))"

definition calibrate_neural_interface ::
  "exception + 'u \<Rightarrow> exception + 'r \<Rightarrow> 'r response" where
  "calibrate_neural_interface token_check service_call =
     (case get_current_user token_check of
        Inl http_error \<Rightarrow> http_error
      | Inr user \<Rightarrow>
          (case service_call of
             Inr result \<Rightarrow> Returned result
           | Inl e \<Rightarrow> HTTPException 500 (str e)))"

definition create_metaverse_world ::
  "exception + 'u \<Rightarrow> exception + 'r \<Rightarrow> 'r response" where
  "create_metaverse_world token_check service_call =
     (case get_current_user token_check of
        Inl http_error \<Rightarrow> http_error
      | Inr user \<Rightarrow>
          (case service_call of
             Inr result \<Rightarrow> Returned result
           | Inl e \<Rightarrow> HTTPException 500 (str e)))"

definition get_metaverse_worlds ::
  "exception + 'u \<Rightarrow> exception + 'r \<Rightarrow> 'r response" where
  "get_metaverse_worlds token_check service_call =
     (case get_current_user token_check of
        Inl http_error \<Rightarrow> http_error
      | Inr user \<Rightarrow>
          (case service_call of
             Inr result \<Rightarrow> Returned result
           | Inl e \<Rightarrow> HTTPException 500 (str e)))"

definition get_meeting_insights ::
  "exception + 'u \<Rightarrow> exception + 'r \<Rightarrow> 'r response" where
  "get_meeting_insights token_check service_call =
     (case get_current_user token_check of
        Inl http_error \<Rightarrow> http_error
      | Inr user \<Rightarrow>
          (case service_call of
             Inr result \<Rightarrow> Returned result
           | Inl e \<Rightarrow> HTTPException 500 (str e)))"

definition get_user_behavior_analysis ::
  "exception + 'u \<Rightarrow> exception + 'r \<Rightarrow> 'r response" where
  "get_user_behavior_analysis token_check service_call =
     (case get_current_user token_check of
        Inl http_error \<Rightarrow> http_error
      | Inr user \<Rightarrow>
          (case service_call of
             Inr result \<Rightarrow> Returned result
           | Inl e \<Rightarrow> HTTPException 500 (str e)))"

text \<open>
  \<^verbatim>\<open>/health\<close> awaits the health checks of the services in order, outside any
  \<^verbatim>\<open>try\<close>: the first exception propagates.
\<close>

fun health_check :: "(exception + 'h) list \<Rightarrow> 'h list response" where
  "health_check [] = Returned []"
| "health_check (Inl e # rest) = Propagated e"
| "health_check (Inr h # rest) =
     (case health_check rest of
        Returned hs \<Rightarrow> Returned (h # hs)
      | other \<Rightarrow> other)"

text \<open>The endpoints that wrap a service call, and the handler of each.\<close>

datatype endpoint = Login | Register | Transcribe_audio | Translate_text | Summarize_meeting | Analyze_emotions | Enhance_video | Remove_background | Recognize_gestures | Generate_quantum_keys | Quantum_encrypt | Create_blockchain_identity | Verify_credential | Process_neural_signals | Calibrate_neural_interface | Create_metaverse_world | Get_metaverse_worlds | Get_meeting_insights | Get_user_behavior_analysis

fun respond :: "endpoint \<Rightarrow> exception + 'u \<Rightarrow> exception + 'r \<Rightarrow> 'r response" where
  "respond Login token_check service_call = login service_call"
| "respond Register token_check service_call = register service_call"
| "respond Transcribe_audio token_check service_call = transcribe_audio token_check service_call"
| "respond Translate_text token_check service_call = translate_text token_check service_call"
| "respond Summarize_meeting token_check service_call = summarize_meeting token_check service_call"
| "respond Analyze_emotions token_check service_call = analyze_emotions_endpoint token_check service_call"
| "respond Enhance_video token_check service_call = enhance_video token_check service_call"
| "respond Remove_background token_check service_call = remove_background token_check service_call"
| "respond Recognize_gestures token_check service_call = recognize_gestures token_check service_call"
| "respond Generate_quantum_keys token_check service_call = generate_quantum_keys token_check service_call"
| "respond Quantum_encrypt token_check service_call = quantum_encrypt token_check service_call"
| "respond Create_blockchain_identity token_check service_call = create_blockchain_identity token_check service_call"
| "respond Verify_credential token_check service_call = verify_credential_endpoint token_check service_call"
| "respond Process_neural_signals token_check service_call = process_neural_signals token_check service_call"
| "respond Calibrate_neural_interface token_check service_call = calibrate_neural_interface token_check service_call"
| "respond Create_metaverse_world token_check service_call = create_metaverse_world token_check service_call"
| "respond Get_metaverse_worlds token_check service_call = get_metaverse_worlds token_check service_call"
| "respond Get_meeting_insights token_check service_call = get_meeting_insights token_check service_call"
| "respond Get_user_behavior_analysis token_check service_call = get_user_behavior_analysis token_check service_call"

lemmas endpoint_defs = login_def register_def transcribe_audio_def translate_text_def summarize_meeting_def analyze_emotions_endpoint_def enhance_video_def remove_background_def recognize_gestures_def generate_quantum_keys_def quantum_encrypt_def create_blockchain_identity_def verify_credential_endpoint_def process_neural_signals_def calibrate_neural_interface_def create_metaverse_world_def get_metaverse_worlds_def get_meeting_insights_def get_user_behavior_analysis_def get_current_user_def

text \<open>An exception raised by a health check is not converted.\<close>

lemma health_check_propagates:
  "health_check (map Inr hs @ Inl e # rest) = Propagated e"
  by (induction hs) simp_all

text \<open>
  C5, as amended. For every endpoint that wraps a service call (all but \<^verbatim>\<open>/health\<close>):
  when the endpoint depends on \<^verbatim>\<open>get_current_user\<close> and token validation raises, the
  response is \<^verbatim>\<open>HTTPException\<close> 401 with the fixed detail
  \<^verbatim>\<open>Invalid authentication credentials\<close>; otherwise, when the service call raises \<open>e\<close>,
  the response is \<^verbatim>\<open>HTTPException\<close> with status 500 (401 for login, 400 for register) and
  detail \<open>str e\<close>, and when the service call returns, its result is returned unchanged.
\<close>

theorem endpoint_responses:
  "respond ep token_check service_call =
     (if ep \<noteq> Login \<and> ep \<noteq> Register \<and> isl token_check
      then HTTPException 401 ''Invalid authentication credentials''
      else case service_call of
             Inr result \<Rightarrow> Returned result
           | Inl e \<Rightarrow> HTTPException (if ep = Login then 401 else if ep = Register then 400 else 500)
                                     (str e))"
  by (cases ep; cases token_check; cases service_call) (simp_all add: endpoint_defs)

text \<open>
  C5 as stated fails for token validation: the detail of the 401 response is a fixed
  string, not the string of the exception that \<^verbatim>\<open>validate_token\<close> raised.
\<close>

theorem token_validation_detail_counterexample:
  "transcribe_audio (Inl (Exception ''Signature has expired'') :: exception + unit)
                    (Inr ''transcript'')
     = HTTPException 401 ''Invalid authentication credentials''
   \<and> str (Exception ''Signature has expired'') \<noteq> ''Invalid authentication credentials''"
  by (simp add: transcribe_audio_def get_current_user_def)

section \<open>WebSocket endpoint (main.py, websocket\_endpoint)\<close>

text \<open>
  A received text is parsed by \<^verbatim>\<open>json.loads\<close>; the model starts from the parsed value.
  The three services are parameters: functions from the \<^verbatim>\<open>data\<close> payload to a result or
  a raised exception. A broadcast is the pair of the room and the payload that is sent
  to every socket of the room.
\<close>
datatype json =
    JNull
  | JBool bool
  | JInt int
  | JFloat real
  | JStr string
  | JArr "json list"
  | JObj "(string \<times> json) list"

datatype ws_error = JSONDecodeError | AttributeError | KeyError string | Raised exception

record services =
  process_frame :: "json \<Rightarrow> exception + json"
  transcribe_chunk :: "json \<Rightarrow> exception + json"
  process_signal :: "json \<Rightarrow> exception + json"

text \<open>
  \<^verbatim>\<open>message.get(key)\<close> and \<^verbatim>\<open>message[key]\<close>. Only a JSON object has \<^verbatim>\<open>get\<close>; reading a
  missing key with \<^verbatim>\<open>[ ]\<close> raises \<^verbatim>\<open>KeyError\<close>.
\<close>

fun dict_get :: "json \<Rightarrow> string \<Rightarrow> ws_error + json option" where
  "dict_get (JObj items) key = Inr (map_of items key)"
| "dict_get other key = Inl AttributeError"

fun dict_item :: "json \<Rightarrow> string \<Rightarrow> ws_error + json" where
  "dict_item (JObj items) key =
     (case map_of items key of Some v \<Rightarrow> Inr v | None \<Rightarrow> Inl (KeyError key))"
| "dict_item other key = Inl AttributeError"

text \<open>
  One branch of the handler: the service is called on \<^verbatim>\<open>message['data']\<close> and its result
  is broadcast under the given type tag.
\<close>

definition call_and_broadcast ::
  "(json \<Rightarrow> exception + json) \<Rightarrow> string \<Rightarrow> string \<Rightarrow> json \<Rightarrow> ws_error + string \<times> json" where
  "call_and_broadcast service out_type room_id message =
     (case dict_item message ''data'' of
        Inl err \<Rightarrow> Inl err
      | Inr data \<Rightarrow>
          (case service data of
             Inl e \<Rightarrow> Inl (Raised e)
           | Inr result \<Rightarrow>
               Inr (room_id, JObj [(''type'', JStr out_type), (''data'', result)])))"

definition dispatch_message :: "services \<Rightarrow> string \<Rightarrow> json \<Rightarrow> ws_error + string \<times> json" where
  "dispatch_message sv room_id message =
     (case dict_get message ''type'' of
        Inl err \<Rightarrow> Inl err
      | Inr tag \<Rightarrow>
          if tag = Some (JStr ''video_frame'')
          then call_and_broadcast (process_frame sv) ''processed_video'' room_id message
          else if tag = Some (JStr ''audio_chunk'')
          then call_and_broadcast (transcribe_chunk sv) ''transcription'' room_id message
          else if tag = Some (JStr ''neural_signal'')
          then call_and_broadcast (process_signal sv) ''neural_command'' room_id message
          else Inr (room_id, message))"

text \<open>
  The loop of the handler over the events of a connection. An exception other than
  \<^verbatim>\<open>WebSocketDisconnect\<close> leaves the loop.
\<close>

datatype ws_event = ReceiveText "json option" | Disconnect

datatype ws_end = Waiting | Disconnected | Failed ws_error

fun websocket_endpoint ::
  "services \<Rightarrow> string \<Rightarrow> ws_event list \<Rightarrow> (string \<times> json) list \<times> ws_end" where
  "websocket_endpoint sv room_id [] = ([], Waiting)"
| "websocket_endpoint sv room_id (Disconnect # events) = ([], Disconnected)"
| "websocket_endpoint sv room_id (ReceiveText None # events) = ([], Failed JSONDecodeError)"
| "websocket_endpoint sv room_id (ReceiveText (Some message) # events) =
     (case dispatch_message sv room_id message of
        Inl err \<Rightarrow> ([], Failed err)
      | Inr sent \<Rightarrow>
          (case websocket_endpoint sv room_id events of
             (broadcasts, end_state) \<Rightarrow> (sent # broadcasts, end_state)))"

text \<open>
  C6, as amended. For every received message that is a JSON object: with type tag
  \<^verbatim>\<open>video_frame\<close> and a \<^verbatim>\<open>data\<close> field on which \<^verbatim>\<open>process_frame\<close> returns, the result is
  broadcast to the room as type \<^verbatim>\<open>processed_video\<close>; likewise \<^verbatim>\<open>audio_chunk\<close> with
  \<^verbatim>\<open>transcribe_chunk\<close> and \<^verbatim>\<open>transcription\<close>, and \<^verbatim>\<open>neural_signal\<close> with
  \<^verbatim>\<open>process_signal\<close> and \<^verbatim>\<open>neural_command\<close>; with any other or no type tag the message
  is broadcast unchanged.
\<close>

theorem dispatch_message_routes:
  "(map_of items ''type'' = Some (JStr ''video_frame'') \<and> map_of items ''data'' = Some d
      \<and> process_frame sv d = Inr r
    \<longrightarrow> dispatch_message sv room_id (JObj items)
          = Inr (room_id, JObj [(''type'', JStr ''processed_video''), (''data'', r)]))
   \<and> (map_of items ''type'' = Some (JStr ''audio_chunk'') \<and> map_of items ''data'' = Some d
      \<and> transcribe_chunk sv d = Inr r
    \<longrightarrow> dispatch_message sv room_id (JObj items)
          = Inr (room_id, JObj [(''type'', JStr ''transcription''), (''data'', r)]))
   \<and> (map_of items ''type'' = Some (JStr ''neural_signal'') \<and> map_of items ''data'' = Some d
      \<and> process_signal sv d = Inr r
    \<longrightarrow> dispatch_message sv room_id (JObj items)
          = Inr (room_id, JObj [(''type'', JStr ''neural_command''), (''data'', r)]))
   \<and> (map_of items ''type'' \<notin> {Some (JStr ''video_frame''), Some (JStr ''audio_chunk''),
                                   Some (JStr ''neural_signal'')}
    \<longrightarrow> dispatch_message sv room_id (JObj items) = Inr (room_id, JObj items))"
  by (simp add: dispatch_message_def call_and_broadcast_def)

text \<open>A service that returns its payload.\<close>

definition echo :: "json \<Rightarrow> exception + json" where
  "echo data = Inr data"

definition echo_services :: services where
  "echo_services = \<lparr> process_frame = echo, transcribe_chunk = echo, process_signal = echo \<rparr>"

text \<open>
  C6 as stated fails: a message with type tag \<^verbatim>\<open>video_frame\<close> and no \<^verbatim>\<open>data\<close> field is
  not routed to \<^verbatim>\<open>process_frame\<close>. Reading \<^verbatim>\<open>message['data']\<close> raises \<^verbatim>\<open>KeyError\<close>,
  nothing is broadcast, and the handler stops: the message after it is not handled.
\<close>

theorem dispatch_message_counterexample:
  "dispatch_message echo_services ''room-1'' (JObj [(''type'', JStr ''video_frame'')])
     = Inl (KeyError ''data'')
   \<and> websocket_endpoint echo_services ''room-1''
         [ReceiveText (Some (JObj [(''type'', JStr ''video_frame'')])),
          ReceiveText (Some (JObj [(''type'', JStr ''chat''), (''text'', JStr ''hello'')]))]
       = ([], Failed (KeyError ''data''))"
  by (simp add: dispatch_message_def call_and_broadcast_def)

theorem dispatch_message_routes_witness:
  "dispatch_message echo_services ''room-1''
     (JObj [(''type'', JStr ''video_frame''), (''data'', JStr ''frame'')])
     = Inr (''room-1'', JObj [(''type'', JStr ''processed_video''), (''data'', JStr ''frame'')])
   \<and> dispatch_message echo_services ''room-1''
       (JObj [(''type'', JStr ''audio_chunk''), (''data'', JStr ''pcm'')])
     = Inr (''room-1'', JObj [(''type'', JStr ''transcription''), (''data'', JStr ''pcm'')])
   \<and> dispatch_message echo_services ''room-1''
       (JObj [(''type'', JStr ''neural_signal''), (''data'', JInt 7)])
     = Inr (''room-1'', JObj [(''type'', JStr ''neural_command''), (''data'', JInt 7)])
   \<and> dispatch_message echo_services ''room-1''
       (JObj [(''type'', JStr ''chat''), (''text'', JStr ''hello'')])
     = Inr (''room-1'', JObj [(''type'', JStr ''chat''), (''text'', JStr ''hello'')])"
  using
    dispatch_message_routes[of "[(''type'', JStr ''video_frame''), (''data'', JStr ''frame'')]"
      "JStr ''frame''" echo_services "JStr ''frame''" "''room-1''"]
    dispatch_message_routes[of "[(''type'', JStr ''audio_chunk''), (''data'', JStr ''pcm'')]"
      "JStr ''pcm''" echo_services "JStr ''pcm''" "''room-1''"]
    dispatch_message_routes[of "[(''type'', JStr ''neural_signal''), (''data'', JInt 7)]"
      "JInt 7" echo_services "JInt 7" "''room-1''"]
    dispatch_message_routes[of "[(''type'', JStr ''chat''), (''text'', JStr ''hello'')]"
      _ echo_services _ "''room-1''"]
  by (simp add: echo_services_def echo_def)

section \<open>Verifiable credentials (blockchain\_service.py, VerifiableCredential)\<close>

text \<open>
  The claims of a credential are any Python values. The code builds strings, lists and
  dictionaries and looks up the keys \<^verbatim>\<open>"proof"\<close> and \<^verbatim>\<open>"jws"\<close>; every other value (a number,
  \<^verbatim>\<open>None\<close>, a \<^verbatim>\<open>datetime\<close>, an object of any class) is passed on unread and is a
  \<open>PObj\<close>. The key of a dictionary is a string or any other hashable value. A dictionary
  is the list of its items in insertion order.
\<close>

datatype 'a key = KStr string | KObj 'a

datatype 'a pyval =
    PStr string
  | PList "'a pyval list"
  | PDict "('a key \<times> 'a pyval) list"
  | PObj 'a

type_synonym 'a pydict = "('a key \<times> 'a pyval) list"

text \<open>
  \<^verbatim>\<open>d[k] = v\<close>, \<^verbatim>\<open>{**d, **other}\<close>, \<^verbatim>\<open>del d[k]\<close> (which raises \<^verbatim>\<open>KeyError\<close> on a
  missing key) and \<^verbatim>\<open>d.get(k, fallback)\<close>.
\<close>

fun dict_set :: "'a pydict \<Rightarrow> 'a key \<Rightarrow> 'a pyval \<Rightarrow> 'a pydict" where
  "dict_set [] k v = [(k, v)]"
| "dict_set ((k', v') # rest) k v =
     (if k' = k then (k, v) # rest else (k', v') # dict_set rest k v)"

definition dict_update :: "'a pydict \<Rightarrow> 'a pydict \<Rightarrow> 'a pydict" where
  "dict_update d other = fold (\<lambda>kv acc. dict_set acc (fst kv) (snd kv)) other d"

definition dict_del :: "'a pydict \<Rightarrow> 'a key \<Rightarrow> 'a pydict option" where
  "dict_del d k = (if k \<in> fst ` set d then Some (filter (\<lambda>kv. fst kv \<noteq> k) d) else None)"

definition get_default :: "'a pydict \<Rightarrow> 'a key \<Rightarrow> 'a pyval \<Rightarrow> 'a pyval" where
  "get_default d k fallback = (case map_of d k of None \<Rightarrow> fallback | Some v \<Rightarrow> v)"

text \<open>
  The functions of the \<^verbatim>\<open>cryptography\<close>, \<^verbatim>\<open>base64\<close> and \<^verbatim>\<open>json\<close> packages are
  parameters. \<open>pss_sign key salt msg\<close> is the RSA-PSS signature (MGF1 with SHA-256,
  maximal salt length) with the salt that was drawn; \<open>pss_verify\<close> tells whether
  \<^verbatim>\<open>public_key.verify\<close> accepts; \<open>json_dumps v\<close> is the text that
  \<^verbatim>\<open>json.dumps(v, sort_keys=True, separators=(',', ':'))\<close> produces. A loader, a decoder
  or a serialisation that raises gives \<open>None\<close>: \<^verbatim>\<open>json.dumps\<close> raises \<^verbatim>\<open>TypeError\<close> on a
  value it cannot serialise, and with \<^verbatim>\<open>sort_keys\<close> also on a dictionary whose keys
  cannot be compared with one another.
\<close>

record ('sk, 'pk, 'a) crypto =
  load_pem_private_key :: "string \<Rightarrow> 'sk option"
  load_pem_public_key :: "string \<Rightarrow> 'pk option"
  pss_sign :: "'sk \<Rightarrow> string \<Rightarrow> string \<Rightarrow> string"
  pss_verify :: "'pk \<Rightarrow> string \<Rightarrow> string \<Rightarrow> bool"
  b64encode :: "string \<Rightarrow> string"
  b64decode :: "string \<Rightarrow> string option"
  json_dumps :: "'a pyval \<Rightarrow> string option"

text \<open>
  \<^verbatim>\<open>_sign_credential\<close>: any exception is caught and the empty string returned.
\<close>

definition sign_credential ::
  "('sk, 'pk, 'a) crypto \<Rightarrow> string \<Rightarrow> 'a pydict \<Rightarrow> string \<Rightarrow> string" where
  "sign_credential lib salt credential private_key_pem =
     (case load_pem_private_key lib private_key_pem of
        None \<Rightarrow> []
      | Some private_key \<Rightarrow>
          (case json_dumps lib (PDict credential) of
             None \<Rightarrow> []
           | Some canonical_json \<Rightarrow>
               b64encode lib (pss_sign lib private_key salt canonical_json)))"

definition credential_context :: "'a pyval" where
  "credential_context =
     PList [PStr ''https://www.w3.org/2018/credentials/v1'',
            PStr ''https://univo.app/credentials/v1'']"

text \<open>
  The three clock readings of \<^verbatim>\<open>create_credential\<close>, in isoformat (the second one a year
  later).
\<close>

record clock =
  issuance_date :: string
  expiration_date :: string
  proof_created :: string

definition create_credential ::
  "('sk, 'pk, 'a) crypto \<Rightarrow> clock \<Rightarrow> string \<Rightarrow> string \<Rightarrow> string \<Rightarrow> 'a pydict \<Rightarrow> string
     \<Rightarrow> 'a pydict" where
  "create_credential lib now salt issuer subject claims private_key =
     (let credential =
            [(KStr ''@context'', credential_context),
             (KStr ''type'', PList [PStr ''VerifiableCredential'']),
             (KStr ''issuer'', PStr issuer),
             (KStr ''issuanceDate'', PStr (issuance_date now @ ''Z'')),
             (KStr ''expirationDate'', PStr (expiration_date now @ ''Z'')),
             (KStr ''credentialSubject'',
                PDict (dict_update [(KStr ''id'', PStr subject)] claims))];
          signature = sign_credential lib salt credential private_key
      in dict_set credential (KStr ''proof'')
           (PDict [(KStr ''type'', PStr ''RsaSignature2018''),
                   (KStr ''created'', PStr (proof_created now @ ''Z'')),
                   (KStr ''verificationMethod'', PStr (issuer @ ''#keys-1'')),
                   (KStr ''proofPurpose'', PStr ''assertionMethod''),
                   (KStr ''jws'', PStr signature)]))"

text \<open>
  \<^verbatim>\<open>_verify_signature\<close> and \<^verbatim>\<open>verify_credential\<close>: any exception is caught and
  \<^verbatim>\<open>False\<close> returned.
\<close>

definition verify_signature ::
  "('sk, 'pk, 'a) crypto \<Rightarrow> 'a pydict \<Rightarrow> 'a pyval \<Rightarrow> string \<Rightarrow> bool" where
  "verify_signature lib credential signature public_key_pem =
     (case load_pem_public_key lib public_key_pem of
        None \<Rightarrow> False
      | Some public_key \<Rightarrow>
          (case json_dumps lib (PDict credential) of
             None \<Rightarrow> False
           | Some canonical_json \<Rightarrow>
               (case signature of
                  PStr jws \<Rightarrow>
                    (case b64decode lib jws of
                       None \<Rightarrow> False
                     | Some signature_bytes \<Rightarrow>
                         pss_verify lib public_key signature_bytes canonical_json)
                | other \<Rightarrow> False)))"

definition verify_credential :: "('sk, 'pk, 'a) crypto \<Rightarrow> 'a pydict \<Rightarrow> string \<Rightarrow> bool" where
  "verify_credential lib credential public_key =
     (case get_default credential (KStr ''proof'') (PDict []) of
        PDict proof_dict \<Rightarrow>
          (let signature = get_default proof_dict (KStr ''jws'') (PStr [])
           in case dict_del credential (KStr ''proof'') of
                None \<Rightarrow> False
              | Some credential_copy \<Rightarrow> verify_signature lib credential_copy signature public_key)
      | other \<Rightarrow> False)"

subsection \<open>Verification of a created credential\<close>

text \<open>
  The dictionary that \<^verbatim>\<open>create_credential\<close> hands to \<^verbatim>\<open>_sign_credential\<close>: the credential
  before its \<^verbatim>\<open>"proof"\<close> entry is added.
\<close>

definition unsigned_credential :: "clock \<Rightarrow> string \<Rightarrow> string \<Rightarrow> 'a pydict \<Rightarrow> 'a pydict" where
  "unsigned_credential now issuer subject claims =
     [(KStr ''@context'', credential_context),
      (KStr ''type'', PList [PStr ''VerifiableCredential'']),
      (KStr ''issuer'', PStr issuer),
      (KStr ''issuanceDate'', PStr (issuance_date now @ ''Z'')),
      (KStr ''expirationDate'', PStr (expiration_date now @ ''Z'')),
      (KStr ''credentialSubject'', PDict (dict_update [(KStr ''id'', PStr subject)] claims))]"

lemma create_credential_proof:
  "\<exists>proof_dict. create_credential lib now salt issuer subject claims private_key
           = unsigned_credential now issuer subject claims @ [(KStr ''proof'', PDict proof_dict)]
         \<and> map_of proof_dict (KStr ''jws'')
             = Some (PStr (sign_credential lib salt (unsigned_credential now issuer subject claims)
                             private_key))"
  by (simp add: create_credential_def unsigned_credential_def Let_def)

lemma unsigned_credential_no_proof:
  "map_of (unsigned_credential now issuer subject claims) (KStr ''proof'') = None"
  "filter (\<lambda>kv. fst kv \<noteq> KStr ''proof'') (unsigned_credential now issuer subject claims)
     = unsigned_credential now issuer subject claims"
  by (simp_all add: unsigned_credential_def)

text \<open>
  C2, as amended. For PEM texts that load to a private and a public key for which
  verification accepts every signature made (a matching key pair, as generated in
  \<^verbatim>\<open>create_identity\<close>), with base64 decoding inverting encoding, and for every issuer,
  subject and claims dictionary such that
  \<^verbatim>\<open>json.dumps(credential, sort_keys=True, separators=(',', ':'))\<close> succeeds on the
  credential before its proof is added, \<^verbatim>\<open>verify_credential\<close> accepts the credential that
  \<^verbatim>\<open>create_credential\<close> produces.
\<close>

theorem verify_created_credential:
  assumes "load_pem_private_key lib private_pem = Some sk"
    and "load_pem_public_key lib public_pem = Some pk"
    and "\<And>salt msg. pss_verify lib pk (pss_sign lib sk salt msg) msg"
    and "\<And>signature. b64decode lib (b64encode lib signature) = Some signature"
    and "json_dumps lib (PDict (unsigned_credential now issuer subject claims)) = Some canonical"
  shows "verify_credential lib
           (create_credential lib now salt issuer subject claims private_pem) public_pem"
proof -
  let ?base = "unsigned_credential now issuer subject claims"
  from create_credential_proof[of lib now salt issuer subject claims private_pem]
  obtain proof_dict where
    cred: "create_credential lib now salt issuer subject claims private_pem
             = ?base @ [(KStr ''proof'', PDict proof_dict)]"
    and jws: "map_of proof_dict (KStr ''jws'')
                = Some (PStr (sign_credential lib salt ?base private_pem))"
    by blast
  from assms(1,5) have sig: "sign_credential lib salt ?base private_pem
                             = b64encode lib (pss_sign lib sk salt canonical)"
    by (simp add: sign_credential_def)
  have get: "get_default (?base @ [(KStr ''proof'', PDict proof_dict)]) (KStr ''proof'') (PDict [])
               = PDict proof_dict"
    by (simp add: get_default_def map_add_def unsigned_credential_no_proof(1))
  have del: "dict_del (?base @ [(KStr ''proof'', PDict proof_dict)]) (KStr ''proof'') = Some ?base"
    by (simp add: dict_del_def unsigned_credential_no_proof(2))
  have j: "get_default proof_dict (KStr ''jws'') (PStr [])
             = PStr (b64encode lib (pss_sign lib sk salt canonical))"
    by (simp add: get_default_def jws sig)
  have v: "verify_signature lib ?base (PStr (b64encode lib (pss_sign lib sk salt canonical)))
             public_pem"
    using assms(2,3,4,5) by (simp add: verify_signature_def)
  show ?thesis
    unfolding verify_credential_def cred get by (simp add: del j v)
qed

text \<open>
  An instance of the library functions in which the loaders, the encoder and the
  decoder are the identity, a signature is the key followed by the signed text, and the
  serialisation writes strings, lists and dictionaries whose keys are all strings, and
  refuses every other value. The other values are given by their \<^verbatim>\<open>repr\<close>.
\<close>

fun render :: "string pyval \<Rightarrow> string option" where
  "render (PStr s) = Some (''<'' @ s @ ''>'')"
| "render (PList xs) =
     map_option (\<lambda>parts. ''['' @ concat parts @ '']'') (those (map render xs))"
| "render (PDict kvs) =
     map_option (\<lambda>parts. ''{'' @ concat parts @ ''}'')
       (those (map (\<lambda>kv. case fst kv of
                            KStr k \<Rightarrow> map_option (\<lambda>r. ''<'' @ k @ ''>:'' @ r) (render (snd kv))
                          | KObj x \<Rightarrow> None) kvs))"
| "render (PObj x) = None"

definition toy_crypto :: "(string, string, string) crypto" where
  "toy_crypto =
     \<lparr> load_pem_private_key = Some,
       load_pem_public_key = Some,
       pss_sign = (\<lambda>key salt msg. key @ msg),
       pss_verify = (\<lambda>key signature msg. signature = key @ msg),
       b64encode = id,
       b64decode = Some,
       json_dumps = render \<rparr>"

definition toy_clock :: clock where
  "toy_clock = \<lparr> issuance_date = ''2024-01-01T00:00:00'',
                 expiration_date = ''2024-12-31T00:00:00'',
                 proof_created = ''2024-01-01T00:00:01'' \<rparr>"

text \<open>
  C2 as stated fails for a claims dictionary on which \<^verbatim>\<open>json.dumps\<close> raises: signing
  catches the \<^verbatim>\<open>TypeError\<close> and stores the empty signature, and verification catches it
  again and returns \<^verbatim>\<open>False\<close>, whatever the keys. Three such dictionaries:
  \<^verbatim>\<open>{"enrolled": datetime(2024, 1, 1)}\<close>, a value that cannot be serialised;
  \<^verbatim>\<open>{"a": {1: "x", "b": "y"}}\<close>, whose inner keys cannot be sorted; and \<^verbatim>\<open>{1: "x"}\<close>,
  whose key cannot be sorted with the key \<^verbatim>\<open>"id"\<close> of the credential subject.
\<close>

theorem verify_created_credential_counterexample:
  "\<not> verify_credential toy_crypto
       (create_credential toy_crypto toy_clock ''salt'' ''did:univo:0xa'' ''did:univo:0xb''
          [(KStr ''enrolled'', PObj ''datetime.datetime(2024, 1, 1, 0, 0)'')] ''key'')
       ''key''
   \<and> \<not> verify_credential toy_crypto
       (create_credential toy_crypto toy_clock ''salt'' ''did:univo:0xa'' ''did:univo:0xb''
          [(KStr ''a'', PDict [(KObj ''1'', PStr ''x''), (KStr ''b'', PStr ''y'')])] ''key'')
       ''key''
   \<and> \<not> verify_credential toy_crypto
       (create_credential toy_crypto toy_clock ''salt'' ''did:univo:0xa'' ''did:univo:0xb''
          [(KObj ''1'', PStr ''x'')] ''key'')
       ''key''"
  by (simp add: verify_credential_def create_credential_def sign_credential_def
      verify_signature_def get_default_def dict_del_def dict_update_def
      toy_crypto_def toy_clock_def credential_context_def)

theorem verify_created_credential_witness:
  "load_pem_private_key toy_crypto ''key'' = Some ''key''
   \<and> load_pem_public_key toy_crypto ''key'' = Some ''key''
   \<and> json_dumps toy_crypto
         (PDict (unsigned_credential toy_clock ''did:univo:0xa'' ''did:univo:0xb''
                   [(KStr ''degree'', PStr ''BSc''),
                    (KStr ''courses'', PList [PStr ''logic'', PStr ''algebra''])])) \<noteq> None
   \<and> verify_credential toy_crypto
       (create_credential toy_crypto toy_clock ''salt'' ''did:univo:0xa'' ''did:univo:0xb''
          [(KStr ''degree'', PStr ''BSc''),
           (KStr ''courses'', PList [PStr ''logic'', PStr ''algebra''])] ''key'')
       ''key''"
proof -
  let ?claims = "[(KStr ''degree'', PStr ''BSc''),
                  (KStr ''courses'', PList [PStr ''logic'', PStr ''algebra''])]"
  have k: "load_pem_private_key toy_crypto ''key'' = Some ''key''"
    "load_pem_public_key toy_crypto ''key'' = Some ''key''"
    by (simp_all add: toy_crypto_def)
  have p: "pss_verify toy_crypto ''key'' (pss_sign toy_crypto ''key'' salt msg) msg" for salt msg
    by (simp add: toy_crypto_def)
  have b: "b64decode toy_crypto (b64encode toy_crypto signature) = Some signature" for signature
    by (simp add: toy_crypto_def)
  obtain canonical where
    s: "json_dumps toy_crypto
          (PDict (unsigned_credential toy_clock ''did:univo:0xa'' ''did:univo:0xb'' ?claims))
        = Some canonical"
    by (simp add: toy_crypto_def unsigned_credential_def dict_update_def toy_clock_def
        credential_context_def)
  from s have n: "json_dumps toy_crypto
          (PDict (unsigned_credential toy_clock ''did:univo:0xa'' ''did:univo:0xb'' ?claims))
        \<noteq> None"
    by simp
  from verify_created_credential[OF k p b s] k n show ?thesis
    by (intro conjI)
qed

section \<open>Identity creation (blockchain\_service.py, BlockchainService.create\_identity)\<close>

text \<open>
  The dictionaries with fixed keys are records; the registries are maps. The profile
  (\<^verbatim>\<open>identity_data\<close>) is of any type \<open>'p\<close>. The isoformat text of a clock reading is not
  modelled: a \<^verbatim>\<open>created_at\<close> field holds the clock reading.
\<close>

record verification_method =
  vm_id :: string
  vm_type :: string
  vm_controller :: string
  publicKeyPem :: string

record service_entry =
  se_id :: string
  se_type :: string
  serviceEndpoint :: string

record did_document =
  doc_context :: "string list"
  doc_id :: string
  verificationMethod :: "verification_method list"
  authentication :: "string list"
  assertionMethod :: "string list"
  doc_service :: "service_entry list"

record 'p identity_record =
  ir_did :: string
  ir_did_document :: did_document
  ir_profile :: 'p
  ir_created_at :: timestamp
  ir_blockchain_address :: string

record account =
  acc_private_key :: string
  balance :: int
  nonce :: int

record 'p contract =
  code :: string
  deployer :: string
  storage :: "string \<rightharpoonup> 'p identity_record"
  deployed_at :: timestamp

record 'p mock_blockchain =
  accounts :: "string \<rightharpoonup> account"
  contracts :: "string \<rightharpoonup> 'p contract"

record 'p registry_entry =
  re_identity_id :: string
  re_did_document :: did_document
  private_key :: string
  public_key :: string
  re_blockchain_address :: string
  blockchain_private_key :: string
  re_profile :: 'p
  re_created_at :: timestamp



record 'p blockchain_service =
  blockchain :: "'p mock_blockchain"
  identity_registry :: "string \<rightharpoonup> 'p registry_entry"
  contract_addresses :: "string \<rightharpoonup> string"
  reputation :: reputation_scores

text \<open>
  What the function takes from outside: whether Web3 is in use, the hash and JSON
  functions, the generated RSA key pair in PEM form, the account that
  \<^verbatim>\<open>Account.create()\<close> gives (address, private key; Web3 mode), the result of
  \<^verbatim>\<open>secrets.token_hex(32)\<close> (mock mode), and the clock readings, numbered.
\<close>

record 'p environment =
  web3_available :: bool
  sha256_hexdigest :: "string \<Rightarrow> string"
  json_dumps :: "'p identity_record \<Rightarrow> string"
  rsa_private_pem :: string
  rsa_public_pem :: string
  web3_account :: "string \<times> string"
  token_hex_32 :: string
  utcnow :: "nat \<Rightarrow> timestamp"












subsection \<open>Where the private keys go\<close>




















end
